theory Spec2Isabelle
  imports Complex_Main
begin

section \<open>Elastic scattering mechanisms of amset (\<open>amset/scattering/elastic.py\<close>)\<close>

text \<open>
  The module defines three elastic scattering mechanisms (ADP, IMP, PIE) over a common
  abstract class, and the function \<open>calculate_inverse_screening_length_sq\<close>.

  Numbers. Every number of the module is a Python float or an element of a float64
  array. They are modelled by \<^typ>\<open>real\<close>: rounding, overflow and the values inf and nan
  are not represented. A division of two Python floats by zero raises
  \<open>ZeroDivisionError\<close> and is a branch of the model. A division of a numpy array or
  numpy scalar by zero does not raise: numpy stores inf or nan and goes on. No real
  number stands for that result, so a statement below that computes with the value of
  such a quotient says that its divisor is not zero; a statement that only names the
  quotient the code forms (an element is \<open>1 / x\<close>) has no such condition.

  Logging. The warnings of the ADP constructor are returned with the instance. The debug
  messages of the IMP constructor are not modelled; the reads that build them are, since
  they can raise.
\<close>

subsection \<open>Python values and exceptions\<close>

datatype Spin = up | down

datatype pykey = StrKey string | SpinKey Spin

text \<open>
  The exceptions the module can raise. \<open>MissingPropertyError\<close> is the name the
  specification gives to the error of a missing property; the source defines no such
  class and raises it nowhere.
\<close>

datatype error =
    KeyError pykey
  | IndexError
  | TypeError
  | ValueError
  | ZeroDivisionError
  | MissingPropertyError

text \<open>A material property is a float or a tuple of floats (\<open>Dict[str, Any]\<close>).\<close>

datatype pyval = Num real | Tup "real list"

definition bind :: "error + 'a \<Rightarrow> ('a \<Rightarrow> error + 'b) \<Rightarrow> error + 'b" where
  "bind m f = (case m of Inl e \<Rightarrow> Inl e | Inr x \<Rightarrow> f x)"

text \<open>\<open>d[k]\<close> on a dict.\<close>

definition dict_getitem :: "('k \<Rightarrow> pykey) \<Rightarrow> ('k \<rightharpoonup> 'v) \<Rightarrow> 'k \<Rightarrow> error + 'v" where
  "dict_getitem key d k = (case d k of None \<Rightarrow> Inl (KeyError (key k)) | Some v \<Rightarrow> Inr v)"

text \<open>\<open>{k: f(k) for k in ks}\<close>: the keys are visited in order, the first error ends it.\<close>

fun dict_comprehension :: "('k \<Rightarrow> error + 'v) \<Rightarrow> 'k list \<Rightarrow> error + ('k \<rightharpoonup> 'v)" where
  "dict_comprehension f [] = Inr Map.empty"
| "dict_comprehension f (k # ks) =
     bind (f k) (\<lambda>v. bind (dict_comprehension f ks) (\<lambda>d.
       Inr (if k \<in> set ks then d else d(k \<mapsto> v))))"

text \<open>\<open>xs[i]\<close> on a one-dimensional array with a non-negative index.\<close>

definition getitem1 :: "real list \<Rightarrow> nat \<Rightarrow> error + real" where
  "getitem1 xs i = (if i < length xs then Inr (xs ! i) else Inl IndexError)"

text \<open>A float operand: arithmetic of a tuple with a float raises \<open>TypeError\<close>.\<close>

definition as_float :: "pyval \<Rightarrow> error + real" where
  "as_float v = (case v of Num r \<Rightarrow> Inr r | Tup xs \<Rightarrow> Inl TypeError)"

text \<open>\<open>a / b\<close> on Python floats.\<close>

definition py_truediv :: "real \<Rightarrow> real \<Rightarrow> error + real" where
  "py_truediv a b = (if b = 0 then Inl ZeroDivisionError else Inr (a / b))"

subsection \<open>numpy arrays\<close>

text \<open>
  An array is its shape and its elements, read at an index (one number per axis).
  Only the elements at the indices inside the shape belong to the array.
\<close>

record ndarray =
  shape :: "nat list"
  item :: "nat list \<Rightarrow> real"

definition valid_index :: "nat list \<Rightarrow> nat list \<Rightarrow> bool" where
  "valid_index sh i = list_all2 (\<lambda>j n. j < n) i sh"

text \<open>\<open>a[i]\<close> with a full index; an index outside the shape raises.\<close>

definition getitem :: "ndarray \<Rightarrow> nat list \<Rightarrow> error + real" where
  "getitem a i = (if valid_index (shape a) i then Inr (item a i) else Inl IndexError)"

text \<open>\<open>a[i] = v\<close> on an index inside the shape.\<close>

definition setitem :: "ndarray \<Rightarrow> nat list \<Rightarrow> real \<Rightarrow> error + ndarray" where
  "setitem a i v =
     (if valid_index (shape a) i then Inr (a\<lparr>item := (item a)(i := v)\<rparr>) else Inl IndexError)"

definition np_full :: "nat list \<Rightarrow> real \<Rightarrow> ndarray" where
  "np_full sh v = \<lparr>shape = sh, item = (\<lambda>i. v)\<rparr>"

definition np_ones :: "nat list \<Rightarrow> ndarray" where
  "np_ones sh = np_full sh 1"

definition np_zeros :: "nat list \<Rightarrow> ndarray" where
  "np_zeros sh = np_full sh 0"

text \<open>A one-dimensional array given by its elements.\<close>

definition np_array1 :: "real list \<Rightarrow> ndarray" where
  "np_array1 xs = \<lparr>shape = [length xs], item = (\<lambda>i. xs ! hd i)\<rparr>"

text \<open>An operation applied to every element (\<open>c * a\<close>, \<open>a ** 2\<close>, \<open>1 / a\<close>).\<close>

definition np_map :: "(real \<Rightarrow> real) \<Rightarrow> ndarray \<Rightarrow> ndarray" where
  "np_map f a = \<lparr>shape = shape a, item = (\<lambda>i. f (item a i))\<rparr>"

text \<open>\<open>a[None]\<close>: a new first axis of length 1.\<close>

definition newaxis_first :: "ndarray \<Rightarrow> ndarray" where
  "newaxis_first a = \<lparr>shape = 1 # shape a, item = (\<lambda>i. item a (tl i))\<rparr>"

text \<open>\<open>a[..., None]\<close>: a new last axis of length 1.\<close>

definition newaxis_last :: "ndarray \<Rightarrow> ndarray" where
  "newaxis_last a = \<lparr>shape = shape a @ [1], item = (\<lambda>i. item a (butlast i))\<rparr>"

text \<open>
  Broadcasting. The shapes are compared from the last axis backwards; two lengths are
  compatible when they are equal or one of them is 1, and a missing axis counts as 1.
  \<open>broadcast_dims\<close> works on the reversed shapes.
\<close>

fun broadcast_dims :: "nat list \<Rightarrow> nat list \<Rightarrow> error + nat list" where
  "broadcast_dims [] ys = Inr ys"
| "broadcast_dims (x # xs) [] = Inr (x # xs)"
| "broadcast_dims (x # xs) (y # ys) =
     (if x = y \<or> y = 1 then bind (broadcast_dims xs ys) (\<lambda>r. Inr (x # r))
      else if x = 1 then bind (broadcast_dims xs ys) (\<lambda>r. Inr (y # r))
      else Inl ValueError)"

definition broadcast_shapes :: "nat list \<Rightarrow> nat list \<Rightarrow> error + nat list" where
  "broadcast_shapes s1 s2 = bind (broadcast_dims (rev s1) (rev s2)) (\<lambda>r. Inr (rev r))"

text \<open>The index of an operand of shape \<open>sh\<close> that the index \<open>i\<close> of the result reads.\<close>

definition broadcast_index :: "nat list \<Rightarrow> nat list \<Rightarrow> nat list" where
  "broadcast_index sh i =
     map2 (\<lambda>n j. if n = 1 then 0 else j) sh (drop (length i - length sh) i)"

definition np_binop :: "(real \<Rightarrow> real \<Rightarrow> real) \<Rightarrow> ndarray \<Rightarrow> ndarray \<Rightarrow> error + ndarray" where
  "np_binop f a b =
     bind (broadcast_shapes (shape a) (shape b)) (\<lambda>sh.
       Inr \<lparr>shape = sh,
            item = (\<lambda>i. f (item a (broadcast_index (shape a) i))
                           (item b (broadcast_index (shape b) i)))\<rparr>)"

text \<open>
  \<open>np.tile(a, reps)\<close>: the shorter of the shape and \<open>reps\<close> is filled with leading 1s;
  every axis is then repeated, so that its length is multiplied.
\<close>

definition np_tile :: "ndarray \<Rightarrow> nat list \<Rightarrow> ndarray" where
  "np_tile a reps =
     (let d = length reps;
          n = length (shape a);
          sh = replicate (d - n) 1 @ shape a;
          rp = replicate (n - d) 1 @ reps
      in \<lparr>shape = map2 (\<lambda>s t. s * t) sh rp,
          item = (\<lambda>i. item a (drop (d - n) (map2 (\<lambda>j s. j mod s) i sh)))\<rparr>)"

text \<open>\<open>np.ndindex(shape)\<close>: all indices of the shape, the last axis running fastest.\<close>

fun ndindex :: "nat list \<Rightarrow> nat list list" where
  "ndindex [] = [[]]"
| "ndindex (n # ns) = concat (map (\<lambda>j. map (\<lambda>i. j # i) (ndindex ns)) [0..<n])"

subsection \<open>What the module imports\<close>

text \<open>
  The physical constants (\<open>amset.constants\<close>, \<open>BoltzTraP2.units\<close>,
  \<open>scipy.constants\<close>) and the Fermi-Dirac function \<open>BoltzTraP2.fd.FD\<close> are not part of
  the module; they are parameters of the model. \<open>np.pi\<close> is \<^term>\<open>pi\<close>.
\<close>

record externals =
  BOLTZMANN :: real
  Second :: real
  eV :: real
  gpa_to_au :: real
  e_charge :: real
  hbar :: real
  k_B :: real
  epsilon_0 :: real
  bohr_to_cm :: real
  FD :: "real list \<Rightarrow> real \<Rightarrow> real \<Rightarrow> real list"

text \<open>
  \<open>AmsetData\<close>, the transport state, as far as the module reads it. \<open>dos_tdos\<close> and
  \<open>dos_energies\<close> are \<open>dos.tdos\<close> and \<open>dos.energies\<close>, \<open>volume\<close> is
  \<open>structure.volume\<close>, \<open>reciprocal_lattice\<close> is
  \<open>structure.lattice.reciprocal_lattice.matrix\<close>.
\<close>

record AmsetData =
  doping :: "real list"
  temperatures :: "real list"
  energies :: "Spin \<rightharpoonup> ndarray"
  spins :: "Spin list"
  vb_idx :: "Spin \<rightharpoonup> int"
  is_metal :: bool
  fermi_levels :: ndarray
  electron_conc :: ndarray
  hole_conc :: ndarray
  dos_tdos :: "real list"
  dos_energies :: "real list"
  volume :: real
  reciprocal_lattice :: ndarray

text \<open>\<open>len(a)\<close> of an array: the length of its first axis.\<close>

definition len :: "ndarray \<Rightarrow> error + nat" where
  "len a = (case shape a of [] \<Rightarrow> Inl TypeError | n # ns \<Rightarrow> Inr n)"

subsection \<open>\<open>AbstractElasticScattering\<close>\<close>

record AbstractElasticScattering =
  self_properties :: "string \<rightharpoonup> pyval"
  self_doping :: "real list"
  self_temperatures :: "real list"
  self_nbands :: "Spin \<rightharpoonup> nat"
  self_spins :: "Spin list"

definition AbstractElasticScattering_init ::
  "string list \<Rightarrow> (string \<rightharpoonup> pyval) \<Rightarrow> AmsetData \<Rightarrow> error + AbstractElasticScattering" where
  "AbstractElasticScattering_init required_properties materials_properties amset_data =
     bind (dict_comprehension (dict_getitem StrKey materials_properties) required_properties)
       (\<lambda>props.
     bind (dict_comprehension
             (\<lambda>s. bind (dict_getitem SpinKey (energies amset_data) s) len)
             (spins amset_data))
       (\<lambda>nb.
     Inr \<lparr>self_properties = props,
          self_doping = doping amset_data,
          self_temperatures = temperatures amset_data,
          self_nbands = nb,
          self_spins = spins amset_data\<rparr>))"

subsection \<open>\<open>PiezoelectricScattering\<close>\<close>

definition PIE_name :: string where
  "PIE_name = ''PIE''"

definition PIE_required_properties :: "string list" where
  "PIE_required_properties = [''piezoelectric_coefficient'', ''static_dielectric'']"

record PiezoelectricScattering = AbstractElasticScattering +
  self_prefactor_PIE :: real

definition PIE_init ::
  "externals \<Rightarrow> (string \<rightharpoonup> pyval) \<Rightarrow> AmsetData \<Rightarrow> error + PiezoelectricScattering" where
  "PIE_init X materials_properties amset_data =
     bind (AbstractElasticScattering_init PIE_required_properties
             materials_properties amset_data) (\<lambda>b.
     bind (py_truediv (10 ^ 9) (e_charge X)) (\<lambda>unit_conversion.
     bind (dict_getitem StrKey (self_properties b) ''piezoelectric_coefficient'') (\<lambda>pc.
     bind (as_float pc) (\<lambda>pc.
     bind (dict_getitem StrKey (self_properties b) ''static_dielectric'') (\<lambda>sd.
     bind (as_float sd) (\<lambda>sd.
     bind (py_truediv (unit_conversion * (e_charge X)\<^sup>2 * k_B X * pc\<^sup>2)
                      (4 * pi\<^sup>2 * hbar X * epsilon_0 X * sd)) (\<lambda>p.
     Inr \<lparr>self_properties = self_properties b,
          self_doping = self_doping b,
          self_temperatures = self_temperatures b,
          self_nbands = self_nbands b,
          self_spins = self_spins b,
          self_prefactor_PIE = p\<rparr>)))))))"

text \<open>\<open>self.temperatures[None, :]\<close>: the temperatures as an array of shape (1, ntemps).\<close>

definition row_of :: "real list \<Rightarrow> ndarray" where
  "row_of xs = newaxis_first (np_array1 xs)"

definition PIE_prefactor ::
  "PiezoelectricScattering \<Rightarrow> Spin \<Rightarrow> int \<Rightarrow> error + ndarray" where
  "PIE_prefactor self spin b_idx =
     np_binop (\<lambda>x y. x * y)
       (np_map (\<lambda>x. self_prefactor_PIE self * x) (row_of (self_temperatures self)))
       (np_ones [length (self_doping self), length (self_temperatures self)])"

definition PIE_factor :: "PiezoelectricScattering \<Rightarrow> ndarray \<Rightarrow> ndarray" where
  "PIE_factor self k_diff_sq =
     np_map (\<lambda>x. 1 / x)
       (np_tile k_diff_sq [length (self_doping self), length (self_temperatures self), 1])"

subsection \<open>\<open>AcousticDeformationPotentialScattering\<close>\<close>

definition ADP_name :: string where
  "ADP_name = ''ADP''"

definition ADP_required_properties :: "string list" where
  "ADP_required_properties = [''deformation_potential'', ''elastic_constant'']"

text \<open>\<open>isinstance(v, tuple)\<close>, \<open>v[i]\<close> and \<open>v * c\<close> on a property value.\<close>

definition isinstance_tuple :: "pyval \<Rightarrow> bool" where
  "isinstance_tuple v = (case v of Num r \<Rightarrow> False | Tup xs \<Rightarrow> True)"

definition py_getitem :: "pyval \<Rightarrow> nat \<Rightarrow> error + real" where
  "py_getitem v i = (case v of Num r \<Rightarrow> Inl TypeError | Tup xs \<Rightarrow> getitem1 xs i)"

definition py_mul :: "pyval \<Rightarrow> real \<Rightarrow> error + real" where
  "py_mul v c = bind (as_float v) (\<lambda>r. Inr (r * c))"

definition warning_metallic :: string where
  "warning_metallic =
     ''System is metallic but deformation potentials for both '' @
     ''the valence and conduction bands have been set... using the '' @
     ''valence band potential for all bands''"

definition warning_semiconducting :: string where
  "warning_semiconducting =
     ''System is semiconducting but only one deformation '' @
     ''potential has been set... using this potential for all bands.''"

record AcousticDeformationPotentialScattering = AbstractElasticScattering +
  self_vb_idx :: "Spin \<rightharpoonup> int"
  self_is_metal :: bool
  self_fermi_levels :: ndarray
  self_prefactor_ADP :: real
  self_deformation_potential :: pyval

text \<open>
  The stored deformation potential and the warnings logged, by the four branches of
  the constructor in their order.
\<close>

definition ADP_deformation_potential ::
  "externals \<Rightarrow> bool \<Rightarrow> pyval \<Rightarrow> error + pyval \<times> string list" where
  "ADP_deformation_potential X metal dp =
     (if metal \<and> isinstance_tuple dp then
        bind (py_getitem dp 0) (\<lambda>d0. Inr (Num (d0 * eV X), [warning_metallic]))
      else if metal then
        bind (py_mul dp (eV X)) (\<lambda>d. Inr (Num d, []))
      else if \<not> metal \<and> \<not> isinstance_tuple dp then
        bind (py_mul dp (eV X)) (\<lambda>d0.
        bind (py_mul dp (eV X)) (\<lambda>d1. Inr (Tup [d0, d1], [warning_semiconducting])))
      else
        bind (py_getitem dp 0) (\<lambda>d0.
        bind (py_getitem dp 1) (\<lambda>d1. Inr (Tup [d0 * eV X, d1 * eV X], []))))"

text \<open>The constructor returns the instance and the warnings it has logged.\<close>

definition ADP_init ::
  "externals \<Rightarrow> (string \<rightharpoonup> pyval) \<Rightarrow> AmsetData \<Rightarrow>
   error + AcousticDeformationPotentialScattering \<times> string list" where
  "ADP_init X materials_properties amset_data =
     bind (AbstractElasticScattering_init ADP_required_properties
             materials_properties amset_data) (\<lambda>b.
     bind (dict_getitem StrKey (self_properties b) ''elastic_constant'') (\<lambda>ec.
     bind (as_float ec) (\<lambda>ec.
     bind (py_truediv (BOLTZMANN X * Second X) (4 * pi\<^sup>2 * ec * gpa_to_au X)) (\<lambda>p.
     bind (dict_getitem StrKey (self_properties b) ''deformation_potential'') (\<lambda>dp.
     bind (ADP_deformation_potential X (is_metal amset_data) dp) (\<lambda>(dp', warnings).
     Inr (\<lparr>self_properties = self_properties b,
           self_doping = self_doping b,
           self_temperatures = self_temperatures b,
           self_nbands = self_nbands b,
           self_spins = self_spins b,
           self_vb_idx = vb_idx amset_data,
           self_is_metal = is_metal amset_data,
           self_fermi_levels = fermi_levels amset_data,
           self_prefactor_ADP = p,
           self_deformation_potential = dp'\<rparr>, warnings)))))))"

text \<open>The first statement of \<open>prefactor\<close>: the array before the deformation potential.\<close>

definition ADP_base_prefactor ::
  "AcousticDeformationPotentialScattering \<Rightarrow> error + ndarray" where
  "ADP_base_prefactor self =
     np_binop (\<lambda>x y. x * y)
       (np_map (\<lambda>x. self_prefactor_ADP self * x) (row_of (self_temperatures self)))
       (np_ones [length (self_doping self), length (self_temperatures self)])"

definition ADP_prefactor ::
  "AcousticDeformationPotentialScattering \<Rightarrow> Spin \<Rightarrow> int \<Rightarrow> error + ndarray" where
  "ADP_prefactor self spin b_idx =
     bind (ADP_base_prefactor self) (\<lambda>prefactor.
     if self_is_metal self then
       bind (as_float (self_deformation_potential self)) (\<lambda>d.
       Inr (np_map (\<lambda>x. x * d\<^sup>2) prefactor))
     else
       bind (dict_getitem SpinKey (self_vb_idx self) spin) (\<lambda>vb.
       bind (py_getitem (self_deformation_potential self) (if b_idx > vb then 1 else 0))
         (\<lambda>d.
       Inr (np_map (\<lambda>x. x * d\<^sup>2) prefactor))))"

definition ADP_factor :: "AcousticDeformationPotentialScattering \<Rightarrow> ndarray \<Rightarrow> ndarray" where
  "ADP_factor self norm_q_sq = np_ones (shape (self_fermi_levels self) @ shape norm_q_sq)"

subsection \<open>\<open>calculate_inverse_screening_length_sq\<close>\<close>

text \<open>A loop whose body may raise.\<close>

fun for_loop :: "('i \<Rightarrow> 's \<Rightarrow> error + 's) \<Rightarrow> 'i list \<Rightarrow> 's \<Rightarrow> error + 's" where
  "for_loop body [] s = Inr s"
| "for_loop body (i # is) s = bind (body i s) (for_loop body is)"

text \<open>An operation on two one-dimensional arrays, with numpy's broadcasting.\<close>

definition np_binop1 ::
  "(real \<Rightarrow> real \<Rightarrow> real) \<Rightarrow> real list \<Rightarrow> real list \<Rightarrow> error + real list" where
  "np_binop1 f xs ys =
     (if length xs = length ys then Inr (map2 f xs ys)
      else if length xs = 1 then Inr (map (f (hd xs)) ys)
      else if length ys = 1 then Inr (map (\<lambda>x. f x (hd ys)) xs)
      else Inl ValueError)"

text \<open>\<open>np.diff(x)\<close>: \<open>x[1:] - x[:-1]\<close>.\<close>

definition np_diff :: "real list \<Rightarrow> real list" where
  "np_diff x = map2 (\<lambda>b a. b - a) (tl x) (butlast x)"

text \<open>\<open>np.trapz(y, x=x)\<close>: \<open>(diff(x) * (y[1:] + y[:-1]) / 2.0).sum()\<close>.\<close>

definition np_trapz :: "real list \<Rightarrow> real list \<Rightarrow> error + real" where
  "np_trapz y x =
     bind (np_binop1 (\<lambda>a b. a + b) (tl y) (butlast y)) (\<lambda>s.
     bind (np_binop1 (\<lambda>a b. a * b) (np_diff x) s) (\<lambda>p.
     Inr (sum_list (map (\<lambda>v. v / 2) p))))"

text \<open>The body of the loop over \<open>np.ndindex\<close>, for one index and the array so far.\<close>

definition screening_loop_body ::
  "externals \<Rightarrow> AmsetData \<Rightarrow> pyval \<Rightarrow> nat list \<Rightarrow> ndarray \<Rightarrow> error + ndarray" where
  "screening_loop_body X amset_data static_dielectric idx inverse_screening_length_sq =
     (let tdos = dos_tdos amset_data;
          energies = dos_energies amset_data;
          fermi_levels = fermi_levels amset_data;
          vol = volume amset_data
      in case idx of
           [n, t] \<Rightarrow>
             bind (getitem fermi_levels [n, t]) (\<lambda>ef.
             bind (getitem1 (temperatures amset_data) t) (\<lambda>temp.
             let f = FD X energies ef (temp * BOLTZMANN X) in
             bind (np_binop1 (\<lambda>a b. a * b) tdos f) (\<lambda>tf.
             bind (np_binop1 (\<lambda>a b. a * b) tf (map (\<lambda>x. 1 - x) f)) (\<lambda>y.
             bind (np_trapz y energies) (\<lambda>integral.
             bind (py_mul static_dielectric (BOLTZMANN X)) (\<lambda>sb.
             setitem inverse_screening_length_sq [n, t]
               (integral * 4 * pi / (sb * temp * vol))))))))
         | _ \<Rightarrow> Inl ValueError)"

definition calculate_inverse_screening_length_sq ::
  "externals \<Rightarrow> AmsetData \<Rightarrow> pyval \<Rightarrow> error + ndarray" where
  "calculate_inverse_screening_length_sq X amset_data static_dielectric =
     (let inverse_screening_length_sq = np_zeros (shape (fermi_levels amset_data))
      in for_loop (screening_loop_body X amset_data static_dielectric)
           (ndindex (shape inverse_screening_length_sq)) inverse_screening_length_sq)"

subsection \<open>\<open>IonizedImpurityScattering\<close>\<close>

definition IMP_name :: string where
  "IMP_name = ''IMP''"

definition IMP_required_properties :: "string list" where
  "IMP_required_properties = [''acceptor_charge'', ''donor_charge'', ''static_dielectric'']"

record IonizedImpurityScattering = AbstractElasticScattering +
  self_rlat :: ndarray
  self_inverse_screening_length_sq :: ndarray
  self_prefactor_IMP :: ndarray

text \<open>
  The body of the loop of the constructor. The text of the debug message is not
  modelled, the reads that build it are.
\<close>

definition IMP_loop_body ::
  "externals \<Rightarrow> AmsetData \<Rightarrow> (string \<rightharpoonup> pyval) \<Rightarrow> ndarray \<Rightarrow>
   nat list \<Rightarrow> ndarray \<Rightarrow> error + ndarray" where
  "IMP_loop_body X amset_data props inv_sq idx impurity_concentration =
     (case idx of
        [n, t] \<Rightarrow>
          bind (getitem (electron_conc amset_data) [n, t]) (\<lambda>ne.
          bind (getitem (hole_conc amset_data) [n, t]) (\<lambda>nh.
          let n_conc = \<bar>ne\<bar>; p_conc = \<bar>nh\<bar> in
          bind (dict_getitem StrKey props ''donor_charge'') (\<lambda>dc.
          bind (as_float dc) (\<lambda>dc.
          bind (dict_getitem StrKey props ''acceptor_charge'') (\<lambda>ac.
          bind (as_float ac) (\<lambda>ac.
          bind (setitem impurity_concentration [n, t] (n_conc * dc\<^sup>2 + p_conc * ac\<^sup>2))
            (\<lambda>ic.
          bind (getitem1 (doping amset_data) n) (\<lambda>dn.
          bind (py_truediv 1 (bohr_to_cm X)) (\<lambda>u.
          bind (getitem1 (temperatures amset_data) t) (\<lambda>tt.
          bind (getitem inv_sq [n, t]) (\<lambda>b2.
          Inr ic)))))))))))
      | _ \<Rightarrow> Inl ValueError)"

definition IMP_init ::
  "externals \<Rightarrow> (string \<rightharpoonup> pyval) \<Rightarrow> AmsetData \<Rightarrow> error + IonizedImpurityScattering" where
  "IMP_init X materials_properties amset_data =
     bind (AbstractElasticScattering_init IMP_required_properties
             materials_properties amset_data) (\<lambda>b.
     bind (dict_getitem StrKey (self_properties b) ''static_dielectric'') (\<lambda>sd.
     bind (calculate_inverse_screening_length_sq X amset_data sd) (\<lambda>inv_sq.
     bind (for_loop (IMP_loop_body X amset_data (self_properties b) inv_sq)
             (ndindex (shape inv_sq)) (np_zeros (shape (fermi_levels amset_data))))
       (\<lambda>impurity_concentration.
     bind (dict_getitem StrKey (self_properties b) ''static_dielectric'') (\<lambda>sd.
     bind (as_float sd) (\<lambda>sd.
     Inr \<lparr>self_properties = self_properties b,
          self_doping = self_doping b,
          self_temperatures = self_temperatures b,
          self_nbands = self_nbands b,
          self_spins = self_spins b,
          self_rlat = reciprocal_lattice amset_data,
          self_inverse_screening_length_sq = inv_sq,
          self_prefactor_IMP =
            np_map (\<lambda>x. x * (4 * pi)\<^sup>2 * Second X / sd\<^sup>2) impurity_concentration\<rparr>))))))"

definition IMP_prefactor :: "IonizedImpurityScattering \<Rightarrow> Spin \<Rightarrow> int \<Rightarrow> ndarray" where
  "IMP_prefactor self spin b_idx = self_prefactor_IMP self"

definition IMP_factor :: "IonizedImpurityScattering \<Rightarrow> ndarray \<Rightarrow> error + ndarray" where
  "IMP_factor self norm_q_sq =
     bind (np_binop (\<lambda>a b. a + b)
            (newaxis_first (newaxis_first norm_q_sq))
            (newaxis_last (self_inverse_screening_length_sq self))) (\<lambda>s.
     Inr (np_map (\<lambda>x. 1 / x\<^sup>2) s))"

subsection \<open>Example inputs\<close>

text \<open>
  A small transport state (one doping level, two temperatures, one spin channel, a
  density of states on three energies), a set of constants, a step function in the place
  of the Fermi-Dirac function, and a mapping with every property of the three mechanisms.
\<close>

definition example_externals :: externals where
  "example_externals =
     \<lparr>BOLTZMANN = 2, Second = 3, eV = 1 / 2, gpa_to_au = 5, e_charge = 2, hbar = 3,
      k_B = 2, epsilon_0 = 7, bohr_to_cm = 2,
      FD = (\<lambda>es ef kT. map (\<lambda>x. if x < ef then 1 else if x = ef then 1 / 2 else 0) es)\<rparr>"

definition example_data :: AmsetData where
  "example_data =
     \<lparr>doping = [1], temperatures = [1, 2],
      energies = [up \<mapsto> np_zeros [2, 1]], spins = [up],
      vb_idx = [up \<mapsto> 0], is_metal = False,
      fermi_levels = np_full [1, 2] (1 / 2),
      electron_conc = np_full [1, 2] (- 3),
      hole_conc = np_full [1, 2] 2,
      dos_tdos = [1, 1, 4], dos_energies = [0, 1 / 2, 1],
      volume = 2,
      reciprocal_lattice = np_zeros [3, 3]\<rparr>"

definition example_properties :: "string \<rightharpoonup> pyval" where
  "example_properties =
     [''deformation_potential'' \<mapsto> Tup [2, 3], ''elastic_constant'' \<mapsto> Num 5,
      ''acceptor_charge'' \<mapsto> Num 1, ''donor_charge'' \<mapsto> Num 2,
      ''static_dielectric'' \<mapsto> Num 2, ''piezoelectric_coefficient'' \<mapsto> Num 3]"

text \<open>
  The same state as a metal, the same properties with one deformation potential, and
  the instances the constructors build from the examples: \<open>example_PIE_zero\<close> for a
  piezoelectric coefficient of zero, \<open>example_IMP_with sd\<close> for the static dielectric
  constant \<open>sd\<close>.
\<close>

definition example_metal_data :: AmsetData where
  "example_metal_data = example_data\<lparr>is_metal := True\<rparr>"

definition example_scalar_properties :: "string \<rightharpoonup> pyval" where
  "example_scalar_properties = example_properties(''deformation_potential'' \<mapsto> Num 2)"

definition example_ADP :: AcousticDeformationPotentialScattering where
  "example_ADP = fst (projr (ADP_init example_externals example_properties example_data))"

definition example_PIE :: PiezoelectricScattering where
  "example_PIE = projr (PIE_init example_externals example_properties example_data)"

definition example_PIE_zero :: PiezoelectricScattering where
  "example_PIE_zero =
     projr (PIE_init example_externals
              (example_properties(''piezoelectric_coefficient'' \<mapsto> Num 0)) example_data)"

definition example_IMP :: IonizedImpurityScattering where
  "example_IMP = projr (IMP_init example_externals example_properties example_data)"

definition example_IMP_with :: "real \<Rightarrow> IonizedImpurityScattering" where
  "example_IMP_with sd =
     projr (IMP_init example_externals
              (example_properties(''static_dielectric'' \<mapsto> Num sd)) example_data)"

section \<open>Properties\<close>

subsection \<open>Exceptions and dicts\<close>

lemma bind_Inr [simp]: "bind (Inr x) f = f x"
  by (simp add: bind_def)

lemma bind_Inl [simp]: "bind (Inl e) f = Inl e"
  by (simp add: bind_def)

lemma bind_eq_Inr: "bind m f = Inr y \<longleftrightarrow> (\<exists>x. m = Inr x \<and> f x = Inr y)"
  by (cases m) simp_all

lemma dict_getitem_None: "d k = None \<Longrightarrow> dict_getitem key d k = Inl (KeyError (key k))"
  by (simp add: dict_getitem_def)

lemma dict_getitem_Some: "d k = Some v \<Longrightarrow> dict_getitem key d k = Inr v"
  by (simp add: dict_getitem_def)

lemma dict_getitem_eq_Inr: "dict_getitem key d k = Inr v \<longleftrightarrow> d k = Some v"
  by (simp add: dict_getitem_def split: option.splits)

lemma dict_comprehension_cong:
  "(\<And>k. k \<in> set ks \<Longrightarrow> f k = g k) \<Longrightarrow> dict_comprehension f ks = dict_comprehension g ks"
  by (induction ks) simp_all

lemma dict_getitem_agree:
  "m1 k = m2 k \<Longrightarrow> dict_getitem key m1 k = dict_getitem key m2 k"
  by (simp add: dict_getitem_def)

lemma dict_comprehension_missing:
  "\<exists>k\<in>set ks. mp k = None \<Longrightarrow>
   \<exists>k\<in>set ks. mp k = None \<and>
     dict_comprehension (dict_getitem StrKey mp) ks = Inl (KeyError (StrKey k))"
proof (induction ks)
  case Nil
  then show ?case by simp
next
  case (Cons a ks)
  show ?case
  proof (cases "mp a")
    case None
    then show ?thesis by (simp add: dict_getitem_None)
  next
    case (Some v)
    with Cons.prems have "\<exists>k\<in>set ks. mp k = None" by auto
    from Cons.IH [OF this] obtain k where
      "k \<in> set ks" "mp k = None"
      "dict_comprehension (dict_getitem StrKey mp) ks = Inl (KeyError (StrKey k))"
      by blast
    with Some show ?thesis by (auto simp: dict_getitem_Some)
  qed
qed

lemma dict_comprehension_restrict:
  "dict_comprehension (dict_getitem key mp) ks = Inr d \<Longrightarrow> d = mp |` set ks"
proof (induction ks arbitrary: d)
  case Nil
  then show ?case by simp
next
  case (Cons a ks)
  from Cons.prems obtain v d' where v: "mp a = Some v"
    and d': "dict_comprehension (dict_getitem key mp) ks = Inr d'"
    and d: "d = (if a \<in> set ks then d' else d'(a \<mapsto> v))"
    by (auto simp: bind_eq_Inr dict_getitem_eq_Inr)
  from Cons.IH [OF d'] have "d' = mp |` set ks" .
  with v d show ?case
    by (auto simp: restrict_map_def fun_eq_iff)
qed

subsection \<open>The constructor of the abstract class\<close>

lemma base_init_agree:
  assumes "\<forall>p\<in>set req. mp1 p = mp2 p"
  shows "AbstractElasticScattering_init req mp1 ad = AbstractElasticScattering_init req mp2 ad"
proof -
  have "dict_comprehension (dict_getitem StrKey mp1) req
      = dict_comprehension (dict_getitem StrKey mp2) req"
    using assms by (intro dict_comprehension_cong dict_getitem_agree) simp
  then show ?thesis
    by (simp add: AbstractElasticScattering_init_def)
qed

lemma base_init_missing:
  "\<exists>k\<in>set req. mp k = None \<Longrightarrow>
   \<exists>k\<in>set req. mp k = None \<and>
     AbstractElasticScattering_init req mp ad = Inl (KeyError (StrKey k))"
  using dict_comprehension_missing [of req mp]
  by (auto simp: AbstractElasticScattering_init_def)

lemma base_init_fields:
  assumes "AbstractElasticScattering_init req mp ad = Inr b"
  shows "self_properties b = mp |` set req"
    and "self_doping b = doping ad"
    and "self_temperatures b = temperatures ad"
    and "self_spins b = spins ad"
  using assms
  by (auto simp: AbstractElasticScattering_init_def bind_eq_Inr
           dest: dict_comprehension_restrict)

subsection \<open>Only the required properties are read\<close>

text \<open>
  C10. The constructor of every mechanism reads the mapping only at the keys of its
  \<open>required_properties\<close>: two mappings that agree on these keys give the same
  result of the constructor (the same instance, hence the same \<open>prefactor\<close> and
  \<open>factor\<close> for every argument, or the same exception), whatever other keys either
  mapping holds.
\<close>

theorem init_reads_only_required_properties:
  "((\<forall>p\<in>set ADP_required_properties. mp1 p = mp2 p) \<longrightarrow>
      ADP_init X mp1 ad = ADP_init X mp2 ad) \<and>
   ((\<forall>p\<in>set IMP_required_properties. mp1 p = mp2 p) \<longrightarrow>
      IMP_init X mp1 ad = IMP_init X mp2 ad) \<and>
   ((\<forall>p\<in>set PIE_required_properties. mp1 p = mp2 p) \<longrightarrow>
      PIE_init X mp1 ad = PIE_init X mp2 ad)"
proof (intro conjI impI)
  assume "\<forall>p\<in>set ADP_required_properties. mp1 p = mp2 p"
  from base_init_agree [OF this] show "ADP_init X mp1 ad = ADP_init X mp2 ad"
    by (simp add: ADP_init_def)
next
  assume "\<forall>p\<in>set IMP_required_properties. mp1 p = mp2 p"
  from base_init_agree [OF this] show "IMP_init X mp1 ad = IMP_init X mp2 ad"
    by (simp add: IMP_init_def)
next
  assume "\<forall>p\<in>set PIE_required_properties. mp1 p = mp2 p"
  from base_init_agree [OF this] show "PIE_init X mp1 ad = PIE_init X mp2 ad"
    by (simp add: PIE_init_def)
qed

theorem init_reads_only_required_properties_witness:
  "list_all (\<lambda>p. example_properties p = (example_properties(''band_gap'' \<mapsto> Num 7)) p)
     (ADP_required_properties @ IMP_required_properties @ PIE_required_properties) \<and>
   example_properties ''band_gap'' \<noteq> (example_properties(''band_gap'' \<mapsto> Num 7)) ''band_gap'' \<and>
   ADP_init example_externals example_properties example_data =
     ADP_init example_externals (example_properties(''band_gap'' \<mapsto> Num 7)) example_data \<and>
   IMP_init example_externals example_properties example_data =
     IMP_init example_externals (example_properties(''band_gap'' \<mapsto> Num 7)) example_data \<and>
   PIE_init example_externals example_properties example_data =
     PIE_init example_externals (example_properties(''band_gap'' \<mapsto> Num 7)) example_data"
proof -
  have a: "\<forall>p\<in>set ADP_required_properties.
      example_properties p = (example_properties(''band_gap'' \<mapsto> Num 7)) p"
    by (simp add: ADP_required_properties_def)
  have i: "\<forall>p\<in>set IMP_required_properties.
      example_properties p = (example_properties(''band_gap'' \<mapsto> Num 7)) p"
    by (simp add: IMP_required_properties_def)
  have p: "\<forall>p\<in>set PIE_required_properties.
      example_properties p = (example_properties(''band_gap'' \<mapsto> Num 7)) p"
    by (simp add: PIE_required_properties_def)
  have n: "example_properties ''band_gap'' \<noteq>
      (example_properties(''band_gap'' \<mapsto> Num 7)) ''band_gap''"
    by (simp add: example_properties_def)
  note t = init_reads_only_required_properties
    [of example_properties "example_properties(''band_gap'' \<mapsto> Num 7)"
        example_externals example_data]
  from t a have "ADP_init example_externals example_properties example_data =
     ADP_init example_externals (example_properties(''band_gap'' \<mapsto> Num 7)) example_data"
    by blast
  moreover from t i have "IMP_init example_externals example_properties example_data =
     IMP_init example_externals (example_properties(''band_gap'' \<mapsto> Num 7)) example_data"
    by blast
  moreover from t p have "PIE_init example_externals example_properties example_data =
     PIE_init example_externals (example_properties(''band_gap'' \<mapsto> Num 7)) example_data"
    by blast
  moreover
  have "list_all (\<lambda>p. example_properties p = (example_properties(''band_gap'' \<mapsto> Num 7)) p)
     (ADP_required_properties @ IMP_required_properties @ PIE_required_properties)"
    by (simp add: ADP_required_properties_def IMP_required_properties_def
        PIE_required_properties_def)
  ultimately show ?thesis using n by blast
qed

subsection \<open>A missing property\<close>

text \<open>
  C3, as the code has it. When the mapping lacks a key of the mechanism's
  \<open>required_properties\<close>, the constructor produces no instance: it raises Python's
  \<open>KeyError\<close> for a missing required key, from the dict comprehension that is its
  first statement.
\<close>

theorem init_missing_property_KeyError:
  "((\<exists>p\<in>set ADP_required_properties. mp p = None) \<longrightarrow>
      (\<exists>k\<in>set ADP_required_properties. mp k = None \<and>
         ADP_init X mp ad = Inl (KeyError (StrKey k)))) \<and>
   ((\<exists>p\<in>set IMP_required_properties. mp p = None) \<longrightarrow>
      (\<exists>k\<in>set IMP_required_properties. mp k = None \<and>
         IMP_init X mp ad = Inl (KeyError (StrKey k)))) \<and>
   ((\<exists>p\<in>set PIE_required_properties. mp p = None) \<longrightarrow>
      (\<exists>k\<in>set PIE_required_properties. mp k = None \<and>
         PIE_init X mp ad = Inl (KeyError (StrKey k))))"
proof (intro conjI impI)
  assume "\<exists>p\<in>set ADP_required_properties. mp p = None"
  from base_init_missing [OF this, of ad]
  show "\<exists>k\<in>set ADP_required_properties. mp k = None \<and>
          ADP_init X mp ad = Inl (KeyError (StrKey k))"
    by (auto simp: ADP_init_def)
next
  assume "\<exists>p\<in>set IMP_required_properties. mp p = None"
  from base_init_missing [OF this, of ad]
  show "\<exists>k\<in>set IMP_required_properties. mp k = None \<and>
          IMP_init X mp ad = Inl (KeyError (StrKey k))"
    by (auto simp: IMP_init_def)
next
  assume "\<exists>p\<in>set PIE_required_properties. mp p = None"
  from base_init_missing [OF this, of ad]
  show "\<exists>k\<in>set PIE_required_properties. mp k = None \<and>
          PIE_init X mp ad = Inl (KeyError (StrKey k))"
    by (auto simp: PIE_init_def)
qed

theorem init_missing_property_KeyError_witness:
  "(\<exists>p\<in>set PIE_required_properties.
      (example_properties(''static_dielectric'' := None)) p = None) \<and>
   PIE_init example_externals (example_properties(''static_dielectric'' := None)) example_data
     = Inl (KeyError (StrKey ''static_dielectric''))"
proof -
  have h: "\<exists>p\<in>set PIE_required_properties.
      (example_properties(''static_dielectric'' := None)) p = None"
    by (simp add: PIE_required_properties_def)
  from init_missing_property_KeyError
    [of "example_properties(''static_dielectric'' := None)" example_externals example_data] h
  have "\<exists>k\<in>set PIE_required_properties.
      (example_properties(''static_dielectric'' := None)) k = None \<and>
      PIE_init example_externals (example_properties(''static_dielectric'' := None))
        example_data = Inl (KeyError (StrKey k))"
    by blast
  then have "PIE_init example_externals (example_properties(''static_dielectric'' := None))
        example_data = Inl (KeyError (StrKey ''static_dielectric''))"
    by (auto simp: PIE_required_properties_def example_properties_def)
  with h show ?thesis by blast
qed

text \<open>
  The error is not the \<open>MissingPropertyError\<close> of the specification: on the empty
  mapping the ADP constructor raises \<open>KeyError('deformation_potential')\<close>.
\<close>

theorem init_missing_property_counterexample:
  "ADP_init example_externals Map.empty example_data
     = Inl (KeyError (StrKey ''deformation_potential'')) \<and>
   ADP_init example_externals Map.empty example_data \<noteq> Inl MissingPropertyError"
  by (simp add: ADP_init_def AbstractElasticScattering_init_def ADP_required_properties_def
      dict_getitem_None)

subsection \<open>Evaluation and inversion\<close>

lemmas example_defs = example_externals_def example_data_def example_properties_def

lemmas py_defs = dict_getitem_def as_float_def py_truediv_def len_def getitem1_def
  py_getitem_def py_mul_def isinstance_tuple_def

lemmas np_defs = np_full_def np_ones_def np_zeros_def np_array1_def np_map_def
  newaxis_first_def newaxis_last_def row_of_def

lemmas init_defs = AbstractElasticScattering_init_def ADP_init_def IMP_init_def PIE_init_def
  ADP_required_properties_def IMP_required_properties_def PIE_required_properties_def
  ADP_deformation_potential_def

lemma as_float_eq_Inr: "as_float v = Inr r \<longleftrightarrow> v = Num r"
  by (cases v) (simp_all add: as_float_def)

lemma py_truediv_eq_Inr: "py_truediv a b = Inr c \<longleftrightarrow> b \<noteq> 0 \<and> c = a / b"
  by (auto simp: py_truediv_def)

lemma py_getitem_Tup: "i < length xs \<Longrightarrow> py_getitem (Tup xs) i = Inr (xs ! i)"
  by (simp add: py_getitem_def getitem1_def)

lemma getitem_eq_Inr:
  "getitem a i = Inr v \<longleftrightarrow> valid_index (shape a) i \<and> v = item a i"
  by (auto simp: getitem_def)

lemma getitem1_eq_Inr: "getitem1 xs i = Inr v \<longleftrightarrow> i < length xs \<and> v = xs ! i"
  by (auto simp: getitem1_def)

lemma setitem_eq_Inr:
  "setitem a i v = Inr a' \<longleftrightarrow> valid_index (shape a) i \<and> a' = a\<lparr>item := (item a)(i := v)\<rparr>"
  by (auto simp: setitem_def)

lemma Inr_projr: "\<not> isl x \<Longrightarrow> x = Inr (fst (projr x), snd (projr x))"
  by (cases x) simp_all

lemma dict_comprehension_present:
  "\<forall>k\<in>set ks. mp k \<noteq> None \<Longrightarrow>
   dict_comprehension (dict_getitem key mp) ks = Inr (mp |` set ks)"
proof (induction ks)
  case Nil
  then show ?case by simp
next
  case (Cons a ks)
  then obtain v where v: "mp a = Some v" by auto
  from Cons have "dict_comprehension (dict_getitem key mp) ks = Inr (mp |` set ks)" by simp
  with v show ?case
    by (auto simp: dict_getitem_Some restrict_map_def fun_eq_iff)
qed

lemma base_init_other_properties:
  assumes "AbstractElasticScattering_init req mp ad = Inr b"
    and "\<forall>k\<in>set req. mp' k \<noteq> None"
  shows "AbstractElasticScattering_init req mp' ad = Inr (b\<lparr>self_properties := mp' |` set req\<rparr>)"
  using assms(1) dict_comprehension_present [OF assms(2), of StrKey]
  by (auto simp: AbstractElasticScattering_init_def bind_eq_Inr)

lemma broadcast_shapes_row: "broadcast_shapes [Suc 0, b] [a, b] = Inr [a, b]"
  by (simp add: broadcast_shapes_def)

lemma shape_row_of [simp]: "shape (row_of xs) = [1, length xs]"
  by (simp add: row_of_def newaxis_first_def np_array1_def)

lemma item_row_of [simp]: "item (row_of xs) [j, t] = xs ! t"
  by (simp add: row_of_def newaxis_first_def np_array1_def)

lemma broadcast_index_row:
  "t < b \<Longrightarrow> broadcast_index [Suc 0, b] [n, t] = [0, t]"
  by (auto simp: broadcast_index_def)

lemma scaled_row_times_ones:
  "\<exists>a. np_binop (\<lambda>x y. x * y) (np_map (\<lambda>x. c * x) (row_of T)) (np_ones [nd, length T]) = Inr a
     \<and> shape a = [nd, length T]
     \<and> (\<forall>n t. t < length T \<longrightarrow> item a [n, t] = c * T ! t)"
  by (simp add: np_binop_def np_map_def np_ones_def np_full_def broadcast_shapes_row broadcast_index_row)

lemma for_loop_invariant:
  assumes "for_loop body xs s = Inr s'" and "P s"
    and "\<And>i s s'. i \<in> set xs \<Longrightarrow> P s \<Longrightarrow> body i s = Inr s' \<Longrightarrow> P s'"
  shows "P s'"
  using assms
proof (induction xs arbitrary: s)
  case Nil
  then show ?case by simp
next
  case (Cons x xs)
  from Cons.prems(1) obtain s1 where s1: "body x s = Inr s1" and r: "for_loop body xs s1 = Inr s'"
    by (auto simp: bind_eq_Inr)
  from Cons.prems(3) [OF _ Cons.prems(2) s1] have p: "P s1" by simp
  show ?case
  proof (rule Cons.IH [OF r p])
    fix i s s'
    assume "i \<in> set xs" "P s" "body i s = Inr s'"
    then show "P s'" using Cons.prems(3) [of i s s'] by simp
  qed
qed

lemma for_loop_succeeds:
  assumes "P s"
    and "\<And>i s. i \<in> set xs \<Longrightarrow> P s \<Longrightarrow> \<exists>s'. body i s = Inr s' \<and> P s'"
  shows "\<exists>s'. for_loop body xs s = Inr s' \<and> P s'"
  using assms
proof (induction xs arbitrary: s)
  case Nil
  then show ?case by simp
next
  case (Cons x xs)
  from Cons.prems(2) [OF _ Cons.prems(1), of x] obtain s1 where
    s1: "body x s = Inr s1" and p: "P s1" by auto
  from Cons.IH [OF p] Cons.prems(2) obtain s' where "for_loop body xs s1 = Inr s'" "P s'"
    by auto
  with s1 show ?case by simp
qed

lemma for_loop_cong:
  "(\<And>i s. i \<in> set xs \<Longrightarrow> body1 i s = body2 i s) \<Longrightarrow>
   for_loop body1 xs s = for_loop body2 xs s"
proof (induction xs arbitrary: s)
  case Nil
  then show ?case by simp
next
  case (Cons x xs)
  then have "body1 x s = body2 x s" "\<And>s. for_loop body1 xs s = for_loop body2 xs s"
    by simp_all
  then show ?case by (cases "body2 x s") simp_all
qed

lemma set_ndindex: "i \<in> set (ndindex sh) \<longleftrightarrow> valid_index sh i"
proof (induction sh arbitrary: i)
  case Nil
  then show ?case by (auto simp: valid_index_def)
next
  case (Cons n ns)
  have "i \<in> set (ndindex (n # ns)) \<longleftrightarrow> (\<exists>j i'. i = j # i' \<and> j < n \<and> i' \<in> set (ndindex ns))"
    by auto
  also have "\<dots> \<longleftrightarrow> (\<exists>j i'. i = j # i' \<and> j < n \<and> valid_index ns i')"
    using Cons.IH by simp
  also have "\<dots> \<longleftrightarrow> valid_index (n # ns) i"
    by (cases i) (simp_all add: valid_index_def)
  finally show ?case .
qed

lemma valid_index_pair [simp]: "valid_index [a, b] i \<longleftrightarrow> (\<exists>n t. i = [n, t] \<and> n < a \<and> t < b)"
  by (auto simp: valid_index_def list_all2_Cons2)

lemma np_binop1_pointwise:
  assumes "np_binop1 f xs ys = Inr zs"
    and "\<forall>x\<in>set xs. P x" and "\<forall>y\<in>set ys. Q y"
    and "\<And>x y. P x \<Longrightarrow> Q y \<Longrightarrow> R (f x y)"
  shows "\<forall>z\<in>set zs. R z"
proof -
  consider "length xs = length ys" "zs = map2 f xs ys"
    | "length xs = 1" "zs = map (f (hd xs)) ys"
    | "length ys = 1" "zs = map (\<lambda>x. f x (hd ys)) xs"
    using assms(1) by (auto simp: np_binop1_def split: if_splits)
  then show ?thesis
  proof cases
    case 1
    show ?thesis
    proof
      fix z assume "z \<in> set zs"
      with 1 obtain a b where ab: "(a, b) \<in> set (zip xs ys)" and z: "z = f a b"
        by auto
      from ab have "a \<in> set xs" "b \<in> set ys"
        by (auto dest: set_zip_leftD set_zip_rightD)
      with assms(2-4) z show "R z" by simp
    qed
  next
    case 2
    then have "hd xs \<in> set xs" by (cases xs) auto
    with 2 assms(2-4) show ?thesis by auto
  next
    case 3
    then have "hd ys \<in> set ys" by (cases ys) auto
    with 3 assms(2-4) show ?thesis by auto
  qed
qed

lemma np_binop1_same_length:
  "length xs = length ys \<Longrightarrow> np_binop1 f xs ys = Inr (map2 f xs ys)"
  by (simp add: np_binop1_def)

lemma np_diff_nonneg:
  assumes "sorted x"
  shows "\<forall>d\<in>set (np_diff x). 0 \<le> d"
proof -
  have "0 \<le> tl x ! i - butlast x ! i" if "i < length x - 1" for i
  proof -
    from that have "tl x ! i = x ! Suc i" "butlast x ! i = x ! i"
      by (simp_all add: nth_tl nth_butlast)
    moreover from assms that have "x ! i \<le> x ! Suc i"
      by (intro sorted_nth_mono) simp_all
    ultimately show ?thesis by simp
  qed
  then show ?thesis
    by (auto simp: np_diff_def in_set_zip)
qed

lemma np_trapz_nonneg:
  assumes "np_trapz y x = Inr v" and "sorted x" and "\<forall>e\<in>set y. 0 \<le> e"
  shows "0 \<le> v"
proof -
  from assms(1) obtain s p where
    s: "np_binop1 (\<lambda>a b. a + b) (tl y) (butlast y) = Inr s"
    and p: "np_binop1 (\<lambda>a b. a * b) (np_diff x) s = Inr p"
    and v: "v = sum_list (map (\<lambda>v. v / 2) p)"
    by (auto simp: np_trapz_def bind_eq_Inr)
  from assms(3) have "\<forall>e\<in>set (tl y). 0 \<le> e"
    by (cases y) simp_all
  moreover from assms(3) have "\<forall>e\<in>set (butlast y). 0 \<le> e"
    by (auto dest: in_set_butlastD)
  ultimately have "\<forall>e\<in>set (tl y). 0 \<le> e" "\<forall>e\<in>set (butlast y). 0 \<le> e"
    by simp_all
  from np_binop1_pointwise [OF s this, of "\<lambda>z. 0 \<le> z"]
  have "\<forall>e\<in>set s. 0 \<le> e" by simp
  from np_binop1_pointwise [OF p np_diff_nonneg [OF assms(2)] this, of "\<lambda>z. 0 \<le> z"]
  have "\<forall>e\<in>set p. 0 \<le> e" by simp
  then show ?thesis
    unfolding v by (intro sum_list_nonneg) auto
qed


subsection \<open>The piezoelectric prefactor\<close>

lemma PIE_init_fields:
  assumes "PIE_init X mp ad = Inr m"
  shows "self_doping m = doping ad" and "self_temperatures m = temperatures ad"
  using assms
  by (auto simp: PIE_init_def bind_eq_Inr dest: base_init_fields)

lemma PIE_init_prefactor:
  assumes "PIE_init X mp ad = Inr m"
  shows "\<exists>pc sd. mp ''piezoelectric_coefficient'' = Some (Num pc) \<and>
           mp ''static_dielectric'' = Some (Num sd) \<and>
           e_charge X \<noteq> 0 \<and> 4 * pi\<^sup>2 * hbar X * epsilon_0 X * sd \<noteq> 0 \<and>
           self_prefactor_PIE m =
             10 ^ 9 / e_charge X * (e_charge X)\<^sup>2 * k_B X * pc\<^sup>2 /
               (4 * pi\<^sup>2 * hbar X * epsilon_0 X * sd)"
proof -
  from assms obtain b uc pc sd p where
    b: "AbstractElasticScattering_init PIE_required_properties mp ad = Inr b"
    and uc: "py_truediv (10 ^ 9) (e_charge X) = Inr uc"
    and pc: "self_properties b ''piezoelectric_coefficient'' = Some (Num pc)"
    and sd: "self_properties b ''static_dielectric'' = Some (Num sd)"
    and p: "py_truediv (uc * (e_charge X)\<^sup>2 * k_B X * pc\<^sup>2)
              (4 * pi\<^sup>2 * hbar X * epsilon_0 X * sd) = Inr p"
    and m: "self_prefactor_PIE m = p"
    by (auto simp: PIE_init_def bind_eq_Inr dict_getitem_eq_Inr as_float_eq_Inr)
  from base_init_fields(1) [OF b] pc sd
  have "mp ''piezoelectric_coefficient'' = Some (Num pc)" "mp ''static_dielectric'' = Some (Num sd)"
    by (auto simp: restrict_map_def split: if_splits)
  with uc p m show ?thesis
    by (auto simp: py_truediv_eq_Inr)
qed

lemma example_PIE_init:
  "PIE_init example_externals example_properties example_data = Inr example_PIE"
proof -
  have "\<not> isl (PIE_init example_externals example_properties example_data)"
    by (simp add: init_defs example_defs py_defs np_defs)
  then show ?thesis
    unfolding example_PIE_def by simp
qed

text \<open>
  C9, as the code has it. For every spin and band the piezoelectric \<open>prefactor\<close> is the
  same array of shape (ndoping, ntemperature) whose element (n, t) is the cached scalar
  \<open>_prefactor\<close> times the temperature t: it is linear in the temperature and does not
  depend on the doping, the spin or the band. The quotient of two elements of one row is
  the quotient of their temperatures when the first temperature and the cached scalar are
  not zero.
\<close>

theorem PIE_prefactor_linear:
  assumes "PIE_init X mp ad = Inr m"
  shows "\<exists>a. (\<forall>spin b_idx. PIE_prefactor m spin b_idx = Inr a) \<and>
     shape a = [length (doping ad), length (temperatures ad)] \<and>
     (\<forall>n t. n < length (doping ad) \<and> t < length (temperatures ad) \<longrightarrow>
        item a [n, t] = self_prefactor_PIE m * temperatures ad ! t) \<and>
     (\<forall>n t1 t2. n < length (doping ad) \<and> t1 < length (temperatures ad) \<and>
        t2 < length (temperatures ad) \<and> temperatures ad ! t1 \<noteq> 0 \<and>
        self_prefactor_PIE m \<noteq> 0 \<longrightarrow>
        item a [n, t2] / item a [n, t1] = temperatures ad ! t2 / temperatures ad ! t1)"
proof -
  from scaled_row_times_ones [of "self_prefactor_PIE m" "temperatures ad" "length (doping ad)"]
  obtain a where a: "np_binop (\<lambda>x y. x * y)
        (np_map (\<lambda>x. self_prefactor_PIE m * x) (row_of (temperatures ad)))
        (np_ones [length (doping ad), length (temperatures ad)]) = Inr a"
    and sh: "shape a = [length (doping ad), length (temperatures ad)]"
    and it: "\<And>n t. t < length (temperatures ad) \<Longrightarrow>
        item a [n, t] = self_prefactor_PIE m * temperatures ad ! t"
    by blast
  from a have "\<forall>spin b_idx. PIE_prefactor m spin b_idx = Inr a"
    by (simp add: PIE_prefactor_def PIE_init_fields [OF assms])
  with sh it show ?thesis
    by (intro exI [of _ a]) simp
qed

theorem PIE_prefactor_linear_witness:
  "PIE_init example_externals example_properties example_data = Inr example_PIE \<and>
   self_prefactor_PIE example_PIE \<noteq> 0 \<and>
   temperatures example_data ! 0 \<noteq> 0 \<and>
   PIE_prefactor example_PIE up 0 = PIE_prefactor example_PIE down 5 \<and>
   item (projr (PIE_prefactor example_PIE up 0)) [0, 1] /
     item (projr (PIE_prefactor example_PIE up 0)) [0, 0] =
   temperatures example_data ! 1 / temperatures example_data ! 0"
proof -
  have p: "self_prefactor_PIE example_PIE \<noteq> 0"
    by (simp add: example_PIE_def init_defs example_defs py_defs np_defs)
  have t: "temperatures example_data ! 0 \<noteq> 0" "(0::nat) < length (doping example_data)"
    "(0::nat) < length (temperatures example_data)" "(1::nat) < length (temperatures example_data)"
    by (simp_all add: example_defs)
  from PIE_prefactor_linear [OF example_PIE_init] obtain a where
    a: "\<And>spin b_idx. PIE_prefactor example_PIE spin b_idx = Inr a"
    and r: "\<And>n t1 t2. n < length (doping example_data) \<and> t1 < length (temperatures example_data) \<and>
        t2 < length (temperatures example_data) \<and> temperatures example_data ! t1 \<noteq> 0 \<and>
        self_prefactor_PIE example_PIE \<noteq> 0 \<Longrightarrow>
        item a [n, t2] / item a [n, t1] =
          temperatures example_data ! t2 / temperatures example_data ! t1"
    by blast
  from r [of 0 0 1] p t have "item a [0, 1] / item a [0, 0] =
      temperatures example_data ! 1 / temperatures example_data ! 0" by simp
  with a [of up 0] a [of down 5] p t example_PIE_init show ?thesis by simp
qed

text \<open>
  With a piezoelectric coefficient of zero every element of the prefactor is zero, and
  the quotient of two elements is not the quotient of the temperatures 2 and 1.
\<close>

theorem PIE_prefactor_ratio_counterexample:
  "\<not> isl (PIE_init example_externals
              (example_properties(''piezoelectric_coefficient'' \<mapsto> Num 0)) example_data) \<and>
   \<not> isl (PIE_prefactor example_PIE_zero up 0) \<and>
   temperatures example_data ! 0 \<noteq> 0 \<and>
   item (projr (PIE_prefactor example_PIE_zero up 0)) [0, 0] = 0 \<and>
   item (projr (PIE_prefactor example_PIE_zero up 0)) [0, 1] = 0 \<and>
   temperatures example_data ! 1 / temperatures example_data ! 0 = 2 \<and>
   item (projr (PIE_prefactor example_PIE_zero up 0)) [0, 1] /
     item (projr (PIE_prefactor example_PIE_zero up 0)) [0, 0] \<noteq>
   temperatures example_data ! 1 / temperatures example_data ! 0"
  by (simp add: example_PIE_zero_def PIE_init_def PIE_prefactor_def
      AbstractElasticScattering_init_def PIE_required_properties_def
      example_defs py_defs np_defs np_binop_def broadcast_shapes_def broadcast_index_def)

subsection \<open>The acoustic deformation potential mechanism\<close>

lemma ADP_deformation_potential_cases:
  "ADP_deformation_potential X True (Tup (Dv # r)) = Inr (Num (Dv * eV X), [warning_metallic])"
  "ADP_deformation_potential X True (Num D) = Inr (Num (D * eV X), [])"
  "ADP_deformation_potential X False (Num D) =
     Inr (Tup [D * eV X, D * eV X], [warning_semiconducting])"
  "ADP_deformation_potential X False (Tup (Dv # Dc # r)) = Inr (Tup [Dv * eV X, Dc * eV X], [])"
  by (simp_all add: ADP_deformation_potential_def isinstance_tuple_def py_getitem_def
      getitem1_def py_mul_def as_float_def)

lemma ADP_init_InrE:
  assumes "ADP_init X mp ad = Inr (m, w)"
  obtains b ec dp dp' where
    "AbstractElasticScattering_init ADP_required_properties mp ad = Inr b"
    and "mp ''elastic_constant'' = Some (Num ec)"
    and "4 * pi\<^sup>2 * ec * gpa_to_au X \<noteq> 0"
    and "mp ''deformation_potential'' = Some dp"
    and "ADP_deformation_potential X (is_metal ad) dp = Inr (dp', w)"
    and "m = \<lparr>self_properties = self_properties b,
           self_doping = self_doping b,
           self_temperatures = self_temperatures b,
           self_nbands = self_nbands b,
           self_spins = self_spins b,
           self_vb_idx = vb_idx ad,
           self_is_metal = is_metal ad,
           self_fermi_levels = fermi_levels ad,
           self_prefactor_ADP = BOLTZMANN X * Second X / (4 * pi\<^sup>2 * ec * gpa_to_au X),
           self_deformation_potential = dp'\<rparr>"
proof -
  from assms obtain b ec p dp dp' where
    b: "AbstractElasticScattering_init ADP_required_properties mp ad = Inr b"
    and ec: "self_properties b ''elastic_constant'' = Some (Num ec)"
    and p: "py_truediv (BOLTZMANN X * Second X) (4 * pi\<^sup>2 * ec * gpa_to_au X) = Inr p"
    and dp: "self_properties b ''deformation_potential'' = Some dp"
    and dp': "ADP_deformation_potential X (is_metal ad) dp = Inr (dp', w)"
    and m: "m = \<lparr>self_properties = self_properties b,
           self_doping = self_doping b,
           self_temperatures = self_temperatures b,
           self_nbands = self_nbands b,
           self_spins = self_spins b,
           self_vb_idx = vb_idx ad,
           self_is_metal = is_metal ad,
           self_fermi_levels = fermi_levels ad,
           self_prefactor_ADP = p,
           self_deformation_potential = dp'\<rparr>"
    by (auto simp: ADP_init_def bind_eq_Inr dict_getitem_eq_Inr as_float_eq_Inr)
  from base_init_fields(1) [OF b] ec dp
  have "mp ''elastic_constant'' = Some (Num ec)" "mp ''deformation_potential'' = Some dp"
    by (auto simp: restrict_map_def split: if_splits)
  with b p dp' m that [of b ec dp dp'] show thesis
    by (auto simp: py_truediv_eq_Inr)
qed

lemma ADP_init_I:
  assumes "AbstractElasticScattering_init ADP_required_properties mp ad = Inr b"
    and "mp ''elastic_constant'' = Some (Num ec)"
    and "4 * pi\<^sup>2 * ec * gpa_to_au X \<noteq> 0"
    and "mp ''deformation_potential'' = Some dp"
    and "ADP_deformation_potential X (is_metal ad) dp = Inr (dp', w)"
  shows "ADP_init X mp ad =
     Inr (\<lparr>self_properties = self_properties b,
           self_doping = self_doping b,
           self_temperatures = self_temperatures b,
           self_nbands = self_nbands b,
           self_spins = self_spins b,
           self_vb_idx = vb_idx ad,
           self_is_metal = is_metal ad,
           self_fermi_levels = fermi_levels ad,
           self_prefactor_ADP = BOLTZMANN X * Second X / (4 * pi\<^sup>2 * ec * gpa_to_au X),
           self_deformation_potential = dp'\<rparr>, w)"
proof -
  from base_init_fields(1) [OF assms(1)] assms(2,4)
  have "self_properties b ''elastic_constant'' = Some (Num ec)"
    "self_properties b ''deformation_potential'' = Some dp"
    by (simp_all add: ADP_required_properties_def)
  with assms show ?thesis
    by (simp add: ADP_init_def dict_getitem_Some as_float_def py_truediv_def)
qed

lemma ADP_init_fields:
  assumes "ADP_init X mp ad = Inr (m, w)"
  shows "\<exists>ec dp. mp ''elastic_constant'' = Some (Num ec) \<and>
           mp ''deformation_potential'' = Some dp \<and>
           4 * pi\<^sup>2 * ec * gpa_to_au X \<noteq> 0 \<and>
           self_prefactor_ADP m = BOLTZMANN X * Second X / (4 * pi\<^sup>2 * ec * gpa_to_au X) \<and>
           ADP_deformation_potential X (is_metal ad) dp = Inr (self_deformation_potential m, w)"
    and "self_doping m = doping ad"
    and "self_temperatures m = temperatures ad"
    and "self_is_metal m = is_metal ad"
    and "self_vb_idx m = vb_idx ad"
    and "self_fermi_levels m = fermi_levels ad"
    and "self_properties m = mp |` set ADP_required_properties"
proof -
  from assms obtain b ec p dp dp' where
    b: "AbstractElasticScattering_init ADP_required_properties mp ad = Inr b"
    and ec: "self_properties b ''elastic_constant'' = Some (Num ec)"
    and p: "py_truediv (BOLTZMANN X * Second X) (4 * pi\<^sup>2 * ec * gpa_to_au X) = Inr p"
    and dp: "self_properties b ''deformation_potential'' = Some dp"
    and dp': "ADP_deformation_potential X (is_metal ad) dp = Inr (dp', w)"
    and m: "m = \<lparr>self_properties = self_properties b,
           self_doping = self_doping b,
           self_temperatures = self_temperatures b,
           self_nbands = self_nbands b,
           self_spins = self_spins b,
           self_vb_idx = vb_idx ad,
           self_is_metal = is_metal ad,
           self_fermi_levels = fermi_levels ad,
           self_prefactor_ADP = p,
           self_deformation_potential = dp'\<rparr>"
    by (auto simp: ADP_init_def bind_eq_Inr dict_getitem_eq_Inr as_float_eq_Inr)
  note f = base_init_fields [OF b]
  from f(1) ec dp
  have "mp ''elastic_constant'' = Some (Num ec)" "mp ''deformation_potential'' = Some dp"
    by (auto simp: restrict_map_def split: if_splits)
  with p dp' m
  show "\<exists>ec dp. mp ''elastic_constant'' = Some (Num ec) \<and>
           mp ''deformation_potential'' = Some dp \<and>
           4 * pi\<^sup>2 * ec * gpa_to_au X \<noteq> 0 \<and>
           self_prefactor_ADP m = BOLTZMANN X * Second X / (4 * pi\<^sup>2 * ec * gpa_to_au X) \<and>
           ADP_deformation_potential X (is_metal ad) dp = Inr (self_deformation_potential m, w)"
    by (auto simp: py_truediv_eq_Inr)
  from m f show "self_doping m = doping ad" "self_temperatures m = temperatures ad"
    "self_is_metal m = is_metal ad" "self_vb_idx m = vb_idx ad"
    "self_fermi_levels m = fermi_levels ad"
    "self_properties m = mp |` set ADP_required_properties"
    by simp_all
qed

lemma ADP_base_prefactor_array:
  "\<exists>base. ADP_base_prefactor m = Inr base \<and>
     shape base = [length (self_doping m), length (self_temperatures m)] \<and>
     (\<forall>n t. t < length (self_temperatures m) \<longrightarrow>
        item base [n, t] = self_prefactor_ADP m * self_temperatures m ! t)"
  unfolding ADP_base_prefactor_def by (rule scaled_row_times_ones)

lemma ADP_prefactor_semiconductor:
  assumes "\<not> self_is_metal m" and "self_vb_idx m spin = Some vb"
    and "self_deformation_potential m = Tup [dv, dc]"
    and "ADP_base_prefactor m = Inr base"
  shows "ADP_prefactor m spin b_idx =
           Inr (np_map (\<lambda>x. x * (if b_idx \<le> vb then dv else dc)\<^sup>2) base)"
  using assms
  by (simp add: ADP_prefactor_def dict_getitem_Some py_getitem_Tup)

lemma ADP_prefactor_metal:
  assumes "self_is_metal m" and "self_deformation_potential m = Num d"
    and "ADP_base_prefactor m = Inr base"
  shows "ADP_prefactor m spin b_idx = Inr (np_map (\<lambda>x. x * d\<^sup>2) base)"
  using assms
  by (simp add: ADP_prefactor_def as_float_def)

lemma ADP_scalar_as_pair:
  assumes "ADP_init X mp ad = Inr (m, w)" and "\<not> is_metal ad"
    and "mp ''deformation_potential'' = Some (Num D)"
  shows "\<exists>m'. ADP_init X (mp(''deformation_potential'' \<mapsto> Tup [D, D])) ad = Inr (m', []) \<and>
           self_deformation_potential m' = self_deformation_potential m \<and>
           ADP_prefactor m' = ADP_prefactor m \<and> ADP_factor m' = ADP_factor m"
proof -
  let ?mp = "mp(''deformation_potential'' \<mapsto> Tup [D, D])"
  from assms(1) obtain b ec dp dp' where
    b: "AbstractElasticScattering_init ADP_required_properties mp ad = Inr b"
    and ec: "mp ''elastic_constant'' = Some (Num ec)"
    and nz: "4 * pi\<^sup>2 * ec * gpa_to_au X \<noteq> 0"
    and dp: "mp ''deformation_potential'' = Some dp"
    and dp': "ADP_deformation_potential X (is_metal ad) dp = Inr (dp', w)"
    and m: "m = \<lparr>self_properties = self_properties b,
           self_doping = self_doping b,
           self_temperatures = self_temperatures b,
           self_nbands = self_nbands b,
           self_spins = self_spins b,
           self_vb_idx = vb_idx ad,
           self_is_metal = is_metal ad,
           self_fermi_levels = fermi_levels ad,
           self_prefactor_ADP = BOLTZMANN X * Second X / (4 * pi\<^sup>2 * ec * gpa_to_au X),
           self_deformation_potential = dp'\<rparr>"
    by (rule ADP_init_InrE)
  from dp dp' assms(2,3) have sdp: "dp' = Tup [D * eV X, D * eV X]"
    by (auto simp: ADP_deformation_potential_cases)
  from ec have "\<forall>k\<in>set ADP_required_properties. ?mp k \<noteq> None"
    by (simp add: ADP_required_properties_def)
  from base_init_other_properties [OF b this]
  have b': "AbstractElasticScattering_init ADP_required_properties ?mp ad =
      Inr (b\<lparr>self_properties := ?mp |` set ADP_required_properties\<rparr>)" .
  from ec have ec': "?mp ''elastic_constant'' = Some (Num ec)" by simp
  have dpk: "?mp ''deformation_potential'' = Some (Tup [D, D])" by simp
  from assms(2)
  have c: "ADP_deformation_potential X (is_metal ad) (Tup [D, D]) =
      Inr (Tup [D * eV X, D * eV X], [])"
    by (simp add: ADP_deformation_potential_cases)
  note i = ADP_init_I [OF b' ec' nz dpk c]
  show ?thesis
    by (rule exI, rule conjI, rule i)
       (simp add: m sdp fun_eq_iff ADP_prefactor_def ADP_base_prefactor_def ADP_factor_def
          cong: if_cong)
qed

lemma example_ADP_init:
  "ADP_init example_externals example_properties example_data = Inr (example_ADP, [])"
proof -
  have "\<not> isl (ADP_init example_externals example_properties example_data)"
    and "snd (projr (ADP_init example_externals example_properties example_data)) = []"
    by (simp_all add: init_defs example_defs py_defs np_defs)
  then show ?thesis
    unfolding example_ADP_def
    by (metis prod.collapse sum.collapse(2))
qed

lemma example_inits:
  "\<not> isl (ADP_init example_externals example_properties example_metal_data)"
  "\<not> isl (ADP_init example_externals example_scalar_properties example_metal_data)"
  "\<not> isl (ADP_init example_externals example_scalar_properties example_data)"
  "\<not> isl (ADP_init example_externals example_properties example_data)"
  by (simp_all add: init_defs example_defs py_defs np_defs example_metal_data_def
      example_scalar_properties_def)

text \<open>
  C1. On a semiconductor constructed with the pair (Dv, Dc), for every spin that has a
  valence band index and every band index, \<open>prefactor\<close> is the base array (the cached
  scalar times the temperature, of shape (ndoping, ntemperature)) times the square of
  Dv converted by \<open>units.eV\<close> when the band index is at most the valence band index of
  the spin, and times the square of the converted Dc when it is above.
\<close>

theorem ADP_prefactor_valence_conduction:
  assumes "ADP_init X mp ad = Inr (m, w)"
    and "\<not> is_metal ad"
    and "mp ''deformation_potential'' = Some (Tup [Dv, Dc])"
    and "vb_idx ad spin = Some vb"
  shows "\<exists>base a. ADP_base_prefactor m = Inr base \<and> ADP_prefactor m spin b_idx = Inr a \<and>
     shape base = [length (doping ad), length (temperatures ad)] \<and>
     shape a = [length (doping ad), length (temperatures ad)] \<and>
     (\<forall>n t. n < length (doping ad) \<and> t < length (temperatures ad) \<longrightarrow>
        item base [n, t] = self_prefactor_ADP m * temperatures ad ! t \<and>
        item a [n, t] =
          item base [n, t] * (if b_idx \<le> vb then (Dv * eV X)\<^sup>2 else (Dc * eV X)\<^sup>2))"
proof -
  note f = ADP_init_fields [OF assms(1)]
  from f(1) assms(2,3)
  have dp: "self_deformation_potential m = Tup [Dv * eV X, Dc * eV X]"
    by (auto simp: ADP_deformation_potential_cases)
  from ADP_base_prefactor_array [of m] obtain base where
    base: "ADP_base_prefactor m = Inr base"
    and sh: "shape base = [length (doping ad), length (temperatures ad)]"
    and it: "\<And>n t. t < length (temperatures ad) \<Longrightarrow>
        item base [n, t] = self_prefactor_ADP m * temperatures ad ! t"
    by (auto simp: f)
  from assms(2,4) f have "\<not> self_is_metal m" "self_vb_idx m spin = Some vb" by simp_all
  from ADP_prefactor_semiconductor [OF this dp base, of b_idx]
  have a: "ADP_prefactor m spin b_idx =
      Inr (np_map (\<lambda>x. x * (if b_idx \<le> vb then Dv * eV X else Dc * eV X)\<^sup>2) base)" .
  show ?thesis
    using base a sh it
    by (intro exI [of _ base]
          exI [of _ "np_map (\<lambda>x. x * (if b_idx \<le> vb then Dv * eV X else Dc * eV X)\<^sup>2) base"])
       (simp add: np_map_def)
qed

theorem ADP_prefactor_valence_conduction_witness:
  "ADP_init example_externals example_properties example_data = Inr (example_ADP, []) \<and>
   \<not> is_metal example_data \<and>
   example_properties ''deformation_potential'' = Some (Tup [2, 3]) \<and>
   vb_idx example_data up = Some 0 \<and>
   item (projr (ADP_base_prefactor example_ADP)) [0, 1] = 3 / (25 * pi\<^sup>2) \<and>
   item (projr (ADP_prefactor example_ADP up 0)) [0, 1] =
     item (projr (ADP_base_prefactor example_ADP)) [0, 1] * (2 * eV example_externals)\<^sup>2 \<and>
   item (projr (ADP_prefactor example_ADP up 1)) [0, 1] =
     item (projr (ADP_base_prefactor example_ADP)) [0, 1] * (3 * eV example_externals)\<^sup>2"
proof -
  have h: "\<not> is_metal example_data"
    "example_properties ''deformation_potential'' = Some (Tup [2, 3])"
    "vb_idx example_data up = Some 0"
    by (simp_all add: example_defs)
  have l: "(0::nat) < length (doping example_data) \<and> (1::nat) < length (temperatures example_data)"
    by (simp add: example_defs)
  have v: "item (projr (ADP_base_prefactor example_ADP)) [0, 1] = 3 / (25 * pi\<^sup>2)"
    by (simp add: example_ADP_def ADP_base_prefactor_def init_defs example_defs py_defs np_defs
        np_binop_def broadcast_shapes_def broadcast_index_def)
  from ADP_prefactor_valence_conduction [OF example_ADP_init h, of 0] l
  have "item (projr (ADP_prefactor example_ADP up 0)) [0, 1] =
     item (projr (ADP_base_prefactor example_ADP)) [0, 1] * (2 * eV example_externals)\<^sup>2"
    by auto
  moreover
  from ADP_prefactor_valence_conduction [OF example_ADP_init h, of 1] l
  have "item (projr (ADP_prefactor example_ADP up 1)) [0, 1] =
     item (projr (ADP_base_prefactor example_ADP)) [0, 1] * (3 * eV example_externals)\<^sup>2"
    by auto
  ultimately show ?thesis using h v example_ADP_init by blast
qed

text \<open>
  C5. What the ADP constructor stores and logs: on a metal with a pair, the first value
  for all bands and a warning; on a metal with a scalar, the scalar for all bands; on a
  semiconductor with a scalar D, a warning and the pair of D and D, with the same
  \<open>prefactor\<close> and \<open>factor\<close> as the instance constructed from the pair (D, D); on a
  semiconductor with a pair, the pair. Every stored value is the supplied value times
  \<open>units.eV\<close>.
\<close>

theorem ADP_init_fallback_policy:
  assumes "ADP_init X mp ad = Inr (m, w)"
    and "mp ''deformation_potential'' = Some dp"
  shows
    "(is_metal ad \<and> dp = Tup [Dv, Dc] \<longrightarrow>
        self_deformation_potential m = Num (Dv * eV X) \<and> w = [warning_metallic] \<and>
        (\<forall>spin b_idx. \<exists>base. ADP_base_prefactor m = Inr base \<and>
           ADP_prefactor m spin b_idx = Inr (np_map (\<lambda>x. x * (Dv * eV X)\<^sup>2) base))) \<and>
     (is_metal ad \<and> dp = Num D \<longrightarrow>
        self_deformation_potential m = Num (D * eV X) \<and> w = [] \<and>
        (\<forall>spin b_idx. \<exists>base. ADP_base_prefactor m = Inr base \<and>
           ADP_prefactor m spin b_idx = Inr (np_map (\<lambda>x. x * (D * eV X)\<^sup>2) base))) \<and>
     (\<not> is_metal ad \<and> dp = Num D \<longrightarrow>
        self_deformation_potential m = Tup [D * eV X, D * eV X] \<and>
        w = [warning_semiconducting] \<and>
        (\<exists>m'. ADP_init X (mp(''deformation_potential'' \<mapsto> Tup [D, D])) ad = Inr (m', []) \<and>
           self_deformation_potential m' = self_deformation_potential m \<and>
           ADP_prefactor m' = ADP_prefactor m \<and> ADP_factor m' = ADP_factor m)) \<and>
     (\<not> is_metal ad \<and> dp = Tup [Dv, Dc] \<longrightarrow>
        self_deformation_potential m = Tup [Dv * eV X, Dc * eV X] \<and> w = [])"
proof -
  note f = ADP_init_fields [OF assms(1)]
  from f(1) assms(2)
  have d: "ADP_deformation_potential X (is_metal ad) dp = Inr (self_deformation_potential m, w)"
    by auto
  obtain base where base: "ADP_base_prefactor m = Inr base"
    using ADP_base_prefactor_array [of m] by blast
  have metal: "\<forall>spin b_idx. \<exists>base. ADP_base_prefactor m = Inr base \<and>
           ADP_prefactor m spin b_idx = Inr (np_map (\<lambda>x. x * v\<^sup>2) base)"
    if "is_metal ad" "self_deformation_potential m = Num v" for v
    using that f(4) base by (simp add: ADP_prefactor_metal)
  have c1: "is_metal ad \<and> dp = Tup [Dv, Dc] \<longrightarrow>
        self_deformation_potential m = Num (Dv * eV X) \<and> w = [warning_metallic] \<and>
        (\<forall>spin b_idx. \<exists>base. ADP_base_prefactor m = Inr base \<and>
           ADP_prefactor m spin b_idx = Inr (np_map (\<lambda>x. x * (Dv * eV X)\<^sup>2) base))"
    using d metal [of "Dv * eV X"] by (auto simp: ADP_deformation_potential_cases)
  have c2: "is_metal ad \<and> dp = Num D \<longrightarrow>
        self_deformation_potential m = Num (D * eV X) \<and> w = [] \<and>
        (\<forall>spin b_idx. \<exists>base. ADP_base_prefactor m = Inr base \<and>
           ADP_prefactor m spin b_idx = Inr (np_map (\<lambda>x. x * (D * eV X)\<^sup>2) base))"
    using d metal [of "D * eV X"] by (auto simp: ADP_deformation_potential_cases)
  have c3: "\<not> is_metal ad \<and> dp = Num D \<longrightarrow>
        self_deformation_potential m = Tup [D * eV X, D * eV X] \<and>
        w = [warning_semiconducting] \<and>
        (\<exists>m'. ADP_init X (mp(''deformation_potential'' \<mapsto> Tup [D, D])) ad = Inr (m', []) \<and>
           self_deformation_potential m' = self_deformation_potential m \<and>
           ADP_prefactor m' = ADP_prefactor m \<and> ADP_factor m' = ADP_factor m)"
  proof
    assume a: "\<not> is_metal ad \<and> dp = Num D"
    with assms(2) have "mp ''deformation_potential'' = Some (Num D)" by simp
    from ADP_scalar_as_pair [OF assms(1) _ this] a d
    show "self_deformation_potential m = Tup [D * eV X, D * eV X] \<and>
        w = [warning_semiconducting] \<and>
        (\<exists>m'. ADP_init X (mp(''deformation_potential'' \<mapsto> Tup [D, D])) ad = Inr (m', []) \<and>
           self_deformation_potential m' = self_deformation_potential m \<and>
           ADP_prefactor m' = ADP_prefactor m \<and> ADP_factor m' = ADP_factor m)"
      by (auto simp: ADP_deformation_potential_cases)
  qed
  have c4: "\<not> is_metal ad \<and> dp = Tup [Dv, Dc] \<longrightarrow>
        self_deformation_potential m = Tup [Dv * eV X, Dc * eV X] \<and> w = []"
    using d by (auto simp: ADP_deformation_potential_cases)
  from c1 c2 c3 c4 show ?thesis by blast
qed

theorem ADP_init_fallback_policy_witness:
  "\<not> isl (ADP_init example_externals example_properties example_metal_data) \<and>
   \<not> isl (ADP_init example_externals example_scalar_properties example_metal_data) \<and>
   \<not> isl (ADP_init example_externals example_scalar_properties example_data) \<and>
   \<not> isl (ADP_init example_externals example_properties example_data) \<and>
   is_metal example_metal_data \<and> \<not> is_metal example_data \<and>
   example_properties ''deformation_potential'' = Some (Tup [2, 3]) \<and>
   example_scalar_properties ''deformation_potential'' = Some (Num 2) \<and>
   self_deformation_potential
     (fst (projr (ADP_init example_externals example_properties example_metal_data)))
     = Num (2 * eV example_externals) \<and>
   snd (projr (ADP_init example_externals example_properties example_metal_data))
     = [warning_metallic] \<and>
   self_deformation_potential
     (fst (projr (ADP_init example_externals example_scalar_properties example_metal_data)))
     = Num (2 * eV example_externals) \<and>
   snd (projr (ADP_init example_externals example_scalar_properties example_metal_data)) = [] \<and>
   self_deformation_potential
     (fst (projr (ADP_init example_externals example_scalar_properties example_data)))
     = Tup [2 * eV example_externals, 2 * eV example_externals] \<and>
   snd (projr (ADP_init example_externals example_scalar_properties example_data))
     = [warning_semiconducting] \<and>
   self_deformation_potential
     (fst (projr (ADP_init example_externals example_properties example_data)))
     = Tup [2 * eV example_externals, 3 * eV example_externals] \<and>
   snd (projr (ADP_init example_externals example_properties example_data)) = []"
proof -
  have h: "is_metal example_metal_data"
    "example_properties ''deformation_potential'' = Some (Tup [2, 3])"
    "\<not> is_metal example_data"
    "example_scalar_properties ''deformation_potential'' = Some (Num 2)"
    by (simp_all add: example_defs example_metal_data_def example_scalar_properties_def)
  note i = example_inits
  from ADP_init_fallback_policy [OF Inr_projr [OF i(1)] h(2), of 2 3] h(1)
  have c1: "self_deformation_potential
     (fst (projr (ADP_init example_externals example_properties example_metal_data)))
     = Num (2 * eV example_externals) \<and>
   snd (projr (ADP_init example_externals example_properties example_metal_data))
     = [warning_metallic]"
    by blast
  from ADP_init_fallback_policy [OF Inr_projr [OF i(2)] h(4), of _ _ 2] h(1)
  have c2: "self_deformation_potential
     (fst (projr (ADP_init example_externals example_scalar_properties example_metal_data)))
     = Num (2 * eV example_externals) \<and>
   snd (projr (ADP_init example_externals example_scalar_properties example_metal_data)) = []"
    by blast
  from ADP_init_fallback_policy [OF Inr_projr [OF i(3)] h(4), of _ _ 2] h(3)
  have c3: "self_deformation_potential
     (fst (projr (ADP_init example_externals example_scalar_properties example_data)))
     = Tup [2 * eV example_externals, 2 * eV example_externals] \<and>
   snd (projr (ADP_init example_externals example_scalar_properties example_data))
     = [warning_semiconducting]"
    by blast
  from ADP_init_fallback_policy [OF Inr_projr [OF i(4)] h(2), of 2 3] h(3)
  have c4: "self_deformation_potential
     (fst (projr (ADP_init example_externals example_properties example_data)))
     = Tup [2 * eV example_externals, 3 * eV example_externals] \<and>
   snd (projr (ADP_init example_externals example_properties example_data)) = []"
    by blast
  from c1 c2 c3 c4 h i show ?thesis by blast
qed

text \<open>
  C7. The ADP \<open>factor\<close> of any array has the shape (ndoping, ntemperature) followed by
  the shape of the argument, and every element is 1, whatever the argument holds.
\<close>

theorem ADP_factor_ones:
  assumes "ADP_init X mp ad = Inr (m, w)"
    and "shape (fermi_levels ad) = [length (doping ad), length (temperatures ad)]"
  shows "shape (ADP_factor m norm_q_sq) =
           [length (doping ad), length (temperatures ad)] @ shape norm_q_sq \<and>
         (\<forall>i. item (ADP_factor m norm_q_sq) i = 1)"
  using assms ADP_init_fields(6) [OF assms(1)]
  by (simp add: ADP_factor_def np_ones_def np_full_def)

theorem ADP_factor_ones_witness:
  "ADP_init example_externals example_properties example_data = Inr (example_ADP, []) \<and>
   shape (fermi_levels example_data) =
     [length (doping example_data), length (temperatures example_data)] \<and>
   shape (ADP_factor example_ADP (np_full [2, 3] 5)) = [1, 2, 2, 3] \<and>
   item (ADP_factor example_ADP (np_full [2, 3] 5)) [0, 1, 1, 2] = 1"
proof -
  have h: "shape (fermi_levels example_data) =
     [length (doping example_data), length (temperatures example_data)]"
    by (simp add: example_defs np_defs)
  from ADP_factor_ones [OF example_ADP_init h, of "np_full [2, 3] 5"]
  have "shape (ADP_factor example_ADP (np_full [2, 3] 5)) = [1, 2, 2, 3] \<and>
   item (ADP_factor example_ADP (np_full [2, 3] 5)) [0, 1, 1, 2] = 1"
    by (simp add: example_defs np_defs)
  with h example_ADP_init show ?thesis by blast
qed

subsection \<open>The inverse screening length\<close>

lemma py_mul_eq_Inr: "py_mul v c = Inr r \<longleftrightarrow> (\<exists>x. v = Num x \<and> r = x * c)"
  by (auto simp: py_mul_def bind_eq_Inr as_float_eq_Inr)

lemma screening_loop_body_InrE:
  assumes "screening_loop_body X ad sdv idx a = Inr a'"
  obtains n t sd y integral where
    "idx = [n, t]" and "valid_index (shape (fermi_levels ad)) [n, t]"
    and "t < length (temperatures ad)" and "sdv = Num sd"
    and "valid_index (shape a) [n, t]"
    and "\<exists>tf. np_binop1 (\<lambda>a b. a * b) (dos_tdos ad)
            (FD X (dos_energies ad) (item (fermi_levels ad) [n, t])
               (temperatures ad ! t * BOLTZMANN X)) = Inr tf \<and>
          np_binop1 (\<lambda>a b. a * b) tf
            (map (\<lambda>x. 1 - x) (FD X (dos_energies ad) (item (fermi_levels ad) [n, t])
               (temperatures ad ! t * BOLTZMANN X))) = Inr y"
    and "np_trapz y (dos_energies ad) = Inr integral"
    and "a' = a\<lparr>item := (item a)([n, t] :=
            integral * 4 * pi / (sd * BOLTZMANN X * (temperatures ad ! t) * volume ad))\<rparr>"
proof -
  from assms obtain n t where idx: "idx = [n, t]"
    by (auto simp: screening_loop_body_def Let_def split: list.splits)
  from assms [unfolded idx] that [OF idx] show thesis
    by (auto simp: screening_loop_body_def Let_def bind_eq_Inr getitem_eq_Inr
        getitem1_eq_Inr py_mul_eq_Inr setitem_eq_Inr)
qed

lemma screening_loop_body_shape:
  "screening_loop_body X ad sdv idx a = Inr a' \<Longrightarrow> shape a' = shape a"
  by (erule screening_loop_body_InrE) simp

lemma screening_loop_body_nonneg:
  assumes body: "screening_loop_body X ad (Num sd) idx a = Inr a'"
    and tdos: "\<forall>x\<in>set (dos_tdos ad). 0 \<le> x"
    and sorted: "sorted (dos_energies ad)"
    and temps: "\<forall>T\<in>set (temperatures ad). 0 < T"
    and sd: "0 < sd" and vol: "0 < volume ad"
    and fd: "\<forall>ef kT. \<forall>f\<in>set (FD X (dos_energies ad) ef kT). 0 \<le> f \<and> f \<le> 1"
    and boltz: "0 < BOLTZMANN X"
    and inv: "\<forall>i. 0 \<le> item a i"
  shows "\<forall>i. 0 \<le> item a' i"
proof -
  from body obtain n t sd' y integral where
    t: "t < length (temperatures ad)" and sd': "Num sd = Num sd'"
    and y: "\<exists>tf. np_binop1 (\<lambda>a b. a * b) (dos_tdos ad)
            (FD X (dos_energies ad) (item (fermi_levels ad) [n, t])
               (temperatures ad ! t * BOLTZMANN X)) = Inr tf \<and>
          np_binop1 (\<lambda>a b. a * b) tf
            (map (\<lambda>x. 1 - x) (FD X (dos_energies ad) (item (fermi_levels ad) [n, t])
               (temperatures ad ! t * BOLTZMANN X))) = Inr y"
    and integral: "np_trapz y (dos_energies ad) = Inr integral"
    and a': "a' = a\<lparr>item := (item a)([n, t] :=
            integral * 4 * pi / (sd' * BOLTZMANN X * (temperatures ad ! t) * volume ad))\<rparr>"
    by (rule screening_loop_body_InrE)
  let ?f = "FD X (dos_energies ad) (item (fermi_levels ad) [n, t])
               (temperatures ad ! t * BOLTZMANN X)"
  from y obtain tf where tf: "np_binop1 (\<lambda>a b. a * b) (dos_tdos ad) ?f = Inr tf"
    and y': "np_binop1 (\<lambda>a b. a * b) tf (map (\<lambda>x. 1 - x) ?f) = Inr y"
    by blast
  from fd have f01: "\<forall>f\<in>set ?f. 0 \<le> f \<and> f \<le> 1" by blast
  from np_binop1_pointwise [OF tf tdos f01, of "\<lambda>z. 0 \<le> z"]
  have tf0: "\<forall>z\<in>set tf. 0 \<le> z" by simp
  from f01 have "\<forall>g\<in>set (map (\<lambda>x. 1 - x) ?f). 0 \<le> g" by auto
  from np_binop1_pointwise [OF y' tf0 this, of "\<lambda>z. 0 \<le> z"]
  have "\<forall>z\<in>set y. 0 \<le> z" by simp
  from np_trapz_nonneg [OF integral sorted this] have i0: "0 \<le> integral" .
  from t temps have "0 < temperatures ad ! t" by simp
  with sd vol boltz sd' have "0 < sd' * BOLTZMANN X * (temperatures ad ! t) * volume ad"
    by simp
  with i0 have "0 \<le> integral * 4 * pi / (sd' * BOLTZMANN X * (temperatures ad ! t) * volume ad)"
    by simp
  with inv a' show ?thesis by simp
qed

lemma np_trapz_same_length:
  "length y = length x \<Longrightarrow> \<exists>v. np_trapz y x = Inr v"
  by (simp add: np_trapz_def np_binop1_same_length np_diff_def)

lemma screening_loop_body_succeeds:
  assumes "valid_index (shape (fermi_levels ad)) idx"
    and "shape (fermi_levels ad) = [nd, length (temperatures ad)]"
    and "length (dos_tdos ad) = length (dos_energies ad)"
    and "\<forall>ef kT. length (FD X (dos_energies ad) ef kT) = length (dos_energies ad)"
    and "shape a = shape (fermi_levels ad)"
  shows "\<exists>a'. screening_loop_body X ad (Num sd) idx a = Inr a' \<and>
           shape a' = shape (fermi_levels ad)"
proof -
  from assms(1,2) obtain n t where idx: "idx = [n, t]" and n: "n < nd"
    and t: "t < length (temperatures ad)"
    by auto
  let ?f = "FD X (dos_energies ad) (item (fermi_levels ad) [n, t])
               (temperatures ad ! t * BOLTZMANN X)"
  from assms(3,4) have l: "length (dos_tdos ad) = length ?f" by simp
  then have tf: "np_binop1 (\<lambda>a b. a * b) (dos_tdos ad) ?f =
      Inr (map2 (\<lambda>a b. a * b) (dos_tdos ad) ?f)"
    by (rule np_binop1_same_length)
  have y: "np_binop1 (\<lambda>a b. a * b) (map2 (\<lambda>a b. a * b) (dos_tdos ad) ?f)
      (map (\<lambda>x. 1 - x) ?f) =
      Inr (map2 (\<lambda>a b. a * b) (map2 (\<lambda>a b. a * b) (dos_tdos ad) ?f) (map (\<lambda>x. 1 - x) ?f))"
    using l by (intro np_binop1_same_length) simp
  have "length (map2 (\<lambda>a b. a * b) (map2 (\<lambda>a b. a * b) (dos_tdos ad) ?f)
      (map (\<lambda>x. 1 - x) ?f)) = length (dos_energies ad)"
    using l assms(3) by simp
  from np_trapz_same_length [OF this] obtain v where
    v: "np_trapz (map2 (\<lambda>a b. a * b) (map2 (\<lambda>a b. a * b) (dos_tdos ad) ?f)
      (map (\<lambda>x. 1 - x) ?f)) (dos_energies ad) = Inr v" by blast
  from n t assms(2,5) have vi: "valid_index (shape (fermi_levels ad)) [n, t]"
    "valid_index (shape a) [n, t]" by simp_all
  show ?thesis
    using tf y v vi t assms(5)
    by (simp add: idx screening_loop_body_def Let_def getitem_def getitem1_def py_mul_def
        as_float_def setitem_def)
qed

lemma screening_shape:
  assumes "calculate_inverse_screening_length_sq X ad sdv = Inr r"
  shows "shape r = shape (fermi_levels ad)"
proof -
  from assms have loop: "for_loop (screening_loop_body X ad sdv)
      (ndindex (shape (fermi_levels ad))) (np_zeros (shape (fermi_levels ad))) = Inr r"
    by (simp add: calculate_inverse_screening_length_sq_def Let_def np_defs)
  show ?thesis
  proof (rule for_loop_invariant [OF loop, where P = "\<lambda>a. shape a = shape (fermi_levels ad)"])
    show "shape (np_zeros (shape (fermi_levels ad))) = shape (fermi_levels ad)"
      by (simp add: np_defs)
  next
    fix i and s s' :: ndarray
    assume "shape s = shape (fermi_levels ad)" "screening_loop_body X ad sdv i s = Inr s'"
    then show "shape s' = shape (fermi_levels ad)"
      by (simp add: screening_loop_body_shape)
  qed
qed

lemma ndindex_1_2: "ndindex [Suc 0, 2] = [[0, 0], [0, Suc 0]]"
  by (simp add: upt_conv_Cons)

lemma example_screening_any:
  "calculate_inverse_screening_length_sq example_externals example_data (Num sd) =
     Inr \<lparr>shape = [1, 2],
          item = (\<lambda>i. 0)([0, 0] := pi / (8 * sd), [0, 1] := pi / (16 * sd))\<rparr>"
  by (simp add: calculate_inverse_screening_length_sq_def screening_loop_body_def Let_def
      example_defs py_defs np_defs np_binop1_def np_trapz_def np_diff_def getitem_def
      setitem_def valid_index_def ndindex_1_2 del: ndindex.simps)

text \<open>
  C6. Under the preconditions of the claim (a non-negative density of states, an
  ascending energy grid, positive temperatures, a positive static dielectric constant, a
  positive cell volume, occupations in [0, 1]) and a positive Boltzmann constant,
  \<open>calculate_inverse_screening_length_sq\<close> returns an array on a well-shaped transport
  state, and every element of the array it returns is non-negative (an element outside
  the shape is the 0 of \<open>np.zeros\<close>).
\<close>

theorem inverse_screening_length_sq_nonneg:
  assumes "\<forall>x\<in>set (dos_tdos ad). 0 \<le> x"
    and "sorted (dos_energies ad)"
    and "\<forall>T\<in>set (temperatures ad). 0 < T"
    and "0 < sd" and "0 < volume ad"
    and "\<forall>ef kT. \<forall>f\<in>set (FD X (dos_energies ad) ef kT). 0 \<le> f \<and> f \<le> 1"
    and "0 < BOLTZMANN X"
  shows "(shape (fermi_levels ad) = [length (doping ad), length (temperatures ad)] \<and>
          length (dos_tdos ad) = length (dos_energies ad) \<and>
          (\<forall>ef kT. length (FD X (dos_energies ad) ef kT) = length (dos_energies ad)) \<longrightarrow>
          (\<exists>r. calculate_inverse_screening_length_sq X ad (Num sd) = Inr r)) \<and>
         (\<forall>r. calculate_inverse_screening_length_sq X ad (Num sd) = Inr r \<longrightarrow>
            shape r = shape (fermi_levels ad) \<and> (\<forall>n t. 0 \<le> item r [n, t]))"
proof (intro conjI impI allI)
  assume wf: "shape (fermi_levels ad) = [length (doping ad), length (temperatures ad)] \<and>
          length (dos_tdos ad) = length (dos_energies ad) \<and>
          (\<forall>ef kT. length (FD X (dos_energies ad) ef kT) = length (dos_energies ad))"
  have "\<exists>r. for_loop (screening_loop_body X ad (Num sd))
          (ndindex (shape (fermi_levels ad))) (np_zeros (shape (fermi_levels ad))) = Inr r \<and>
          shape r = shape (fermi_levels ad)"
  proof (rule for_loop_succeeds [where P = "\<lambda>a. shape a = shape (fermi_levels ad)"])
    show "shape (np_zeros (shape (fermi_levels ad))) = shape (fermi_levels ad)"
      by (simp add: np_defs)
  next
    fix i and s :: ndarray
    assume "i \<in> set (ndindex (shape (fermi_levels ad)))"
      and s: "shape s = shape (fermi_levels ad)"
    then have "valid_index (shape (fermi_levels ad)) i"
      by (simp only: set_ndindex)
    with wf s show "\<exists>s'. screening_loop_body X ad (Num sd) i s = Inr s' \<and>
        shape s' = shape (fermi_levels ad)"
      by (intro screening_loop_body_succeeds [where nd = "length (doping ad)"]) blast+
  qed
  then show "\<exists>r. calculate_inverse_screening_length_sq X ad (Num sd) = Inr r"
    by (auto simp: calculate_inverse_screening_length_sq_def Let_def np_defs)
next
  fix r
  assume r: "calculate_inverse_screening_length_sq X ad (Num sd) = Inr r"
  then have loop: "for_loop (screening_loop_body X ad (Num sd))
      (ndindex (shape (fermi_levels ad))) (np_zeros (shape (fermi_levels ad))) = Inr r"
    by (simp add: calculate_inverse_screening_length_sq_def Let_def np_defs)
  have "shape r = shape (fermi_levels ad) \<and> (\<forall>i. 0 \<le> item r i)"
  proof (rule for_loop_invariant [OF loop,
        where P = "\<lambda>a. shape a = shape (fermi_levels ad) \<and> (\<forall>i. 0 \<le> item a i)"])
    show "shape (np_zeros (shape (fermi_levels ad))) = shape (fermi_levels ad) \<and>
        (\<forall>i. 0 \<le> item (np_zeros (shape (fermi_levels ad))) i)"
      by (simp add: np_defs)
  next
    fix i and s s' :: ndarray
    assume "shape s = shape (fermi_levels ad) \<and> (\<forall>i. 0 \<le> item s i)"
      and b: "screening_loop_body X ad (Num sd) i s = Inr s'"
    with screening_loop_body_shape [OF b]
      screening_loop_body_nonneg [OF b assms(1,2,3,4,5,6,7)]
    show "shape s' = shape (fermi_levels ad) \<and> (\<forall>i. 0 \<le> item s' i)"
      by simp
  qed
  then show "shape r = shape (fermi_levels ad)" and "\<And>n t. 0 \<le> item r [n, t]"
    by simp_all
qed

theorem inverse_screening_length_sq_nonneg_witness:
  "list_all (\<lambda>x. 0 \<le> x) (dos_tdos example_data) \<and>
   sorted (dos_energies example_data) \<and>
   list_all (\<lambda>T. 0 < T) (temperatures example_data) \<and>
   (0 :: real) < 2 \<and> 0 < volume example_data \<and>
   (\<forall>ef kT. list_all (\<lambda>f. 0 \<le> f \<and> f \<le> 1)
      (FD example_externals (dos_energies example_data) ef kT)) \<and>
   0 < BOLTZMANN example_externals \<and>
   calculate_inverse_screening_length_sq example_externals example_data (Num 2) =
     Inr \<lparr>shape = [1, 2], item = (\<lambda>i. 0)([0, 0] := pi / 16, [0, 1] := pi / 32)\<rparr> \<and>
   0 \<le> item (projr (calculate_inverse_screening_length_sq example_externals example_data
     (Num 2))) [0, 1]"
proof -
  have h: "\<forall>x\<in>set (dos_tdos example_data). 0 \<le> x"
    "sorted (dos_energies example_data)"
    "\<forall>T\<in>set (temperatures example_data). 0 < T"
    "(0 :: real) < 2" "0 < volume example_data"
    "\<forall>ef kT. \<forall>f\<in>set (FD example_externals (dos_energies example_data) ef kT). 0 \<le> f \<and> f \<le> 1"
    "0 < BOLTZMANN example_externals"
    by (simp_all add: example_defs)
  have c: "calculate_inverse_screening_length_sq example_externals example_data (Num 2) =
     Inr \<lparr>shape = [1, 2], item = (\<lambda>i. 0)([0, 0] := pi / 16, [0, 1] := pi / 32)\<rparr>"
    by (simp add: example_screening_any)
  from inverse_screening_length_sq_nonneg [OF h] c
  have "0 \<le> item (projr (calculate_inverse_screening_length_sq example_externals example_data
     (Num 2))) [0, 1]"
    by (metis sum.sel(2))
  with h c show ?thesis
    by (simp add: list_all_iff)
qed

subsection \<open>The ionized impurity mechanism\<close>

lemma IMP_init_InrE:
  assumes "IMP_init X mp ad = Inr m"
  obtains b sd inv_sq ic where
    "AbstractElasticScattering_init IMP_required_properties mp ad = Inr b"
    and "mp ''static_dielectric'' = Some (Num sd)"
    and "calculate_inverse_screening_length_sq X ad (Num sd) = Inr inv_sq"
    and "for_loop (IMP_loop_body X ad (self_properties b) inv_sq) (ndindex (shape inv_sq))
           (np_zeros (shape (fermi_levels ad))) = Inr ic"
    and "m = \<lparr>self_properties = self_properties b,
          self_doping = self_doping b,
          self_temperatures = self_temperatures b,
          self_nbands = self_nbands b,
          self_spins = self_spins b,
          self_rlat = reciprocal_lattice ad,
          self_inverse_screening_length_sq = inv_sq,
          self_prefactor_IMP = np_map (\<lambda>x. x * (4 * pi)\<^sup>2 * Second X / sd\<^sup>2) ic\<rparr>"
proof -
  from assms obtain b sd inv_sq ic where
    b: "AbstractElasticScattering_init IMP_required_properties mp ad = Inr b"
    and sd: "self_properties b ''static_dielectric'' = Some (Num sd)"
    and c: "calculate_inverse_screening_length_sq X ad (Num sd) = Inr inv_sq"
    and l: "for_loop (IMP_loop_body X ad (self_properties b) inv_sq) (ndindex (shape inv_sq))
           (np_zeros (shape (fermi_levels ad))) = Inr ic"
    and m: "m = \<lparr>self_properties = self_properties b,
          self_doping = self_doping b,
          self_temperatures = self_temperatures b,
          self_nbands = self_nbands b,
          self_spins = self_spins b,
          self_rlat = reciprocal_lattice ad,
          self_inverse_screening_length_sq = inv_sq,
          self_prefactor_IMP = np_map (\<lambda>x. x * (4 * pi)\<^sup>2 * Second X / sd\<^sup>2) ic\<rparr>"
    by (auto simp: IMP_init_def bind_eq_Inr dict_getitem_eq_Inr as_float_eq_Inr)
  from base_init_fields(1) [OF b] sd have "mp ''static_dielectric'' = Some (Num sd)"
    by (auto simp: restrict_map_def split: if_splits)
  with b c l m that [of b sd inv_sq ic] show thesis by blast
qed

lemma IMP_init_I:
  assumes "AbstractElasticScattering_init IMP_required_properties mp ad = Inr b"
    and "mp ''static_dielectric'' = Some (Num sd)"
    and "calculate_inverse_screening_length_sq X ad (Num sd) = Inr inv_sq"
    and "for_loop (IMP_loop_body X ad (self_properties b) inv_sq) (ndindex (shape inv_sq))
           (np_zeros (shape (fermi_levels ad))) = Inr ic"
  shows "IMP_init X mp ad =
     Inr \<lparr>self_properties = self_properties b,
          self_doping = self_doping b,
          self_temperatures = self_temperatures b,
          self_nbands = self_nbands b,
          self_spins = self_spins b,
          self_rlat = reciprocal_lattice ad,
          self_inverse_screening_length_sq = inv_sq,
          self_prefactor_IMP = np_map (\<lambda>x. x * (4 * pi)\<^sup>2 * Second X / sd\<^sup>2) ic\<rparr>"
proof -
  from base_init_fields(1) [OF assms(1)] assms(2)
  have "self_properties b ''static_dielectric'' = Some (Num sd)"
    by (simp add: IMP_required_properties_def)
  with assms show ?thesis
    by (simp add: IMP_init_def dict_getitem_Some as_float_def)
qed

lemma IMP_init_screening_shape:
  assumes "IMP_init X mp ad = Inr m"
  shows "shape (self_inverse_screening_length_sq m) = shape (fermi_levels ad)"
  using assms by (elim IMP_init_InrE) (simp add: screening_shape)

lemma IMP_init_fields:
  assumes "IMP_init X mp ad = Inr m"
  shows "self_doping m = doping ad" and "self_temperatures m = temperatures ad"
  using assms by (auto elim!: IMP_init_InrE dest: base_init_fields)

lemma bind_getitem_unused:
  "bind (getitem a i) (\<lambda>v. r) = (if valid_index (shape a) i then r else Inl IndexError)"
  by (simp add: getitem_def)

lemma IMP_loop_body_cong:
  assumes "props1 ''donor_charge'' = props2 ''donor_charge''"
    and "props1 ''acceptor_charge'' = props2 ''acceptor_charge''"
    and "shape b1 = shape b2"
  shows "IMP_loop_body X ad props1 b1 idx ic = IMP_loop_body X ad props2 b2 idx ic"
  using assms
  by (simp add: IMP_loop_body_def dict_getitem_def bind_getitem_unused
      cong: list.case_cong)

lemma example_impurity_loop:
  assumes "props ''donor_charge'' = Some (Num 2)" and "props ''acceptor_charge'' = Some (Num 1)"
    and "shape b = [1, 2]"
  shows "for_loop (IMP_loop_body example_externals example_data props b) (ndindex (shape b))
      (np_zeros (shape (fermi_levels example_data))) =
     Inr \<lparr>shape = [1, 2], item = (\<lambda>i. 0)([0, 0] := 14, [0, 1] := 14)\<rparr>"
  using assms
  by (simp add: IMP_loop_body_def dict_getitem_Some example_data_def example_externals_def
      as_float_def py_truediv_def getitem1_def np_defs bind_getitem_unused getitem_def
      setitem_def valid_index_def ndindex_1_2 del: ndindex.simps)

lemma example_IMP_init_any:
  "IMP_init example_externals (example_properties(''static_dielectric'' \<mapsto> Num sd)) example_data =
     Inr \<lparr>self_properties =
            (example_properties(''static_dielectric'' \<mapsto> Num sd)) |` set IMP_required_properties,
          self_doping = doping example_data,
          self_temperatures = temperatures example_data,
          self_nbands = [up \<mapsto> 2],
          self_spins = spins example_data,
          self_rlat = reciprocal_lattice example_data,
          self_inverse_screening_length_sq =
            \<lparr>shape = [1, 2],
             item = (\<lambda>i. 0)([0, 0] := pi / (8 * sd), [0, 1] := pi / (16 * sd))\<rparr>,
          self_prefactor_IMP = np_map (\<lambda>x. x * (4 * pi)\<^sup>2 * Second example_externals / sd\<^sup>2)
            \<lparr>shape = [1, 2], item = (\<lambda>i. 0)([0, 0] := 14, [0, 1] := 14)\<rparr>\<rparr>"
proof -
  let ?mp = "example_properties(''static_dielectric'' \<mapsto> Num sd)"
  have "\<not> isl (AbstractElasticScattering_init IMP_required_properties ?mp example_data)"
    by (simp add: init_defs example_defs py_defs np_defs)
  then obtain b where
    b: "AbstractElasticScattering_init IMP_required_properties ?mp example_data = Inr b"
    by (cases "AbstractElasticScattering_init IMP_required_properties ?mp example_data") auto
  have sd: "?mp ''static_dielectric'' = Some (Num sd)" by simp
  have p: "self_properties b ''donor_charge'' = Some (Num 2)"
    "self_properties b ''acceptor_charge'' = Some (Num 1)"
    by (simp_all add: base_init_fields(1) [OF b] IMP_required_properties_def example_defs)
  have nb: "self_nbands b = [up \<mapsto> 2]"
    using b by (auto simp: init_defs example_defs py_defs np_defs)
  note f = base_init_fields [OF b]
  have l: "for_loop (IMP_loop_body example_externals example_data (self_properties b)
        \<lparr>shape = [1, 2], item = (\<lambda>i. 0)([0, 0] := pi / (8 * sd), [0, 1] := pi / (16 * sd))\<rparr>)
      (ndindex (shape \<lparr>shape = [1, 2],
         item = (\<lambda>i. 0)([0, 0] := pi / (8 * sd), [0, 1] := pi / (16 * sd))\<rparr>))
      (np_zeros (shape (fermi_levels example_data))) =
     Inr \<lparr>shape = [1, 2], item = (\<lambda>i. 0)([0, 0] := 14, [0, 1] := 14)\<rparr>"
    by (rule example_impurity_loop [OF p]) simp
  from IMP_init_I [OF b sd example_screening_any l] show ?thesis
    by (simp only: f nb)
qed

lemma example_IMP_with_init:
  "IMP_init example_externals (example_properties(''static_dielectric'' \<mapsto> Num sd))
     example_data = Inr (example_IMP_with sd)"
  unfolding example_IMP_with_def by (simp only: example_IMP_init_any sum.sel)

lemma example_IMP_with_fields:
  "self_inverse_screening_length_sq (example_IMP_with sd) =
     \<lparr>shape = [1, 2], item = (\<lambda>i. 0)([0, 0] := pi / (8 * sd), [0, 1] := pi / (16 * sd))\<rparr>"
  "self_prefactor_IMP (example_IMP_with sd) =
     np_map (\<lambda>x. x * (4 * pi)\<^sup>2 * Second example_externals / sd\<^sup>2)
       \<lparr>shape = [1, 2], item = (\<lambda>i. 0)([0, 0] := 14, [0, 1] := 14)\<rparr>"
  unfolding example_IMP_with_def by (simp_all only: example_IMP_init_any sum.sel
      IonizedImpurityScattering.simps)

lemma example_IMP_eq: "example_IMP = example_IMP_with 2"
proof -
  have "example_properties(''static_dielectric'' \<mapsto> Num 2) = example_properties"
    by (rule map_upd_triv) (simp add: example_defs)
  then show ?thesis
    by (simp add: example_IMP_def example_IMP_with_def)
qed

lemma example_IMP_init:
  "IMP_init example_externals example_properties example_data = Inr example_IMP"
proof -
  have "example_properties(''static_dielectric'' \<mapsto> Num 2) = example_properties"
    by (rule map_upd_triv) (simp add: example_defs)
  with example_IMP_with_init [of 2] show ?thesis
    by (simp add: example_IMP_eq)
qed

lemma broadcast_shapes_column: "broadcast_shapes [Suc 0, Suc 0, c] [a, b, Suc 0] = Inr [a, b, c]"
  by (simp add: broadcast_shapes_def)

lemma broadcast_index_column:
  "k < c \<Longrightarrow> broadcast_index [Suc 0, Suc 0, c] [n, t, k] = [0, 0, k]"
  "n < a \<Longrightarrow> t < b \<Longrightarrow> broadcast_index [a, b, Suc 0] [n, t, k] = [n, t, 0]"
  by (auto simp: broadcast_index_def)

lemma IMP_factor_1d:
  assumes "shape (self_inverse_screening_length_sq m) = [a, b]" and "shape q = [c]"
  shows "\<exists>F. IMP_factor m q = Inr F \<and> shape F = [a, b, c] \<and>
     (\<forall>n t k. n < a \<and> t < b \<and> k < c \<longrightarrow>
        item F [n, t, k] = 1 / (item q [k] + item (self_inverse_screening_length_sq m) [n, t])\<^sup>2)"
  using assms
  by (simp add: IMP_factor_def np_binop_def np_defs broadcast_shapes_column
      broadcast_index_column)

text \<open>
  C4. For a one-dimensional \<open>q_sq\<close> of length nk, the IMP \<open>factor\<close> returns an array of
  shape (ndoping, ntemperature, nk) whose element (n, t, k) is
  1 / (q_sq[k] + inverse_screening_length_sq[n, t]) ** 2.
\<close>

theorem IMP_factor_screened:
  assumes "IMP_init X mp ad = Inr m"
    and "shape (fermi_levels ad) = [length (doping ad), length (temperatures ad)]"
    and "shape q_sq = [nk]"
  shows "\<exists>F. IMP_factor m q_sq = Inr F \<and>
     shape F = [length (doping ad), length (temperatures ad), nk] \<and>
     (\<forall>n t k. n < length (doping ad) \<and> t < length (temperatures ad) \<and> k < nk \<longrightarrow>
        item F [n, t, k] =
          1 / (item q_sq [k] + item (self_inverse_screening_length_sq m) [n, t])\<^sup>2)"
  using IMP_init_screening_shape [OF assms(1)] assms(2,3)
  by (intro IMP_factor_1d) simp_all

theorem IMP_factor_screened_witness:
  "IMP_init example_externals example_properties example_data = Inr example_IMP \<and>
   shape (fermi_levels example_data) =
     [length (doping example_data), length (temperatures example_data)] \<and>
   shape (np_array1 [0, 1, 3]) = [3] \<and>
   item (self_inverse_screening_length_sq example_IMP) [0, 1] = pi / 32 \<and>
   shape (projr (IMP_factor example_IMP (np_array1 [0, 1, 3]))) = [1, 2, 3] \<and>
   item (projr (IMP_factor example_IMP (np_array1 [0, 1, 3]))) [0, 1, 2] =
     1 / (3 + pi / 32)\<^sup>2"
proof -
  have h: "shape (fermi_levels example_data) =
     [length (doping example_data), length (temperatures example_data)]"
    "shape (np_array1 [0, 1, 3]) = [3]"
    by (simp_all add: example_defs np_defs)
  have b: "item (self_inverse_screening_length_sq example_IMP) [0, 1] = pi / 32"
    by (simp add: example_IMP_eq example_IMP_with_fields)
  from IMP_factor_screened [OF example_IMP_init h] obtain F where
    F: "IMP_factor example_IMP (np_array1 [0, 1, 3]) = Inr F"
    and sh: "shape F = [length (doping example_data), length (temperatures example_data), 3]"
    and it: "\<And>n t k. n < length (doping example_data) \<and>
        t < length (temperatures example_data) \<and> k < 3 \<Longrightarrow>
        item F [n, t, k] = 1 / (item (np_array1 [0, 1, 3]) [k] +
          item (self_inverse_screening_length_sq example_IMP) [n, t])\<^sup>2"
    by blast
  have l: "0 < length (doping example_data) \<and>
        1 < length (temperatures example_data) \<and> (2 :: nat) < 3"
    by (simp add: example_defs)
  have q: "item (np_array1 [0, 1, 3]) [2] = 3"
    by (simp add: np_defs)
  from it [of 0 1 2] l have "item F [0, 1, 2] = 1 / (item (np_array1 [0, 1, 3]) [2] +
          item (self_inverse_screening_length_sq example_IMP) [0, 1])\<^sup>2"
    by blast
  then have "item F [0, 1, 2] = 1 / (3 + pi / 32)\<^sup>2"
    by (simp only: q b)
  moreover from sh have "shape F = [1, 2, 3]" by (simp add: example_defs)
  ultimately show ?thesis using F h b example_IMP_init by simp
qed

text \<open>
  C8. Two IMP instances constructed from the same transport state and the same
  properties but for the static dielectric constants d and 2 d, with d not zero: the
  cached prefactor of the second is a quarter of that of the first, element by element.
\<close>

theorem IMP_prefactor_dielectric_doubling:
  assumes "IMP_init X (mp(''static_dielectric'' \<mapsto> Num d)) ad = Inr m1"
    and "IMP_init X (mp(''static_dielectric'' \<mapsto> Num (2 * d))) ad = Inr m2"
    and "d \<noteq> 0"
  shows "shape (self_prefactor_IMP m2) = shape (self_prefactor_IMP m1) \<and>
     (\<forall>n t. item (self_prefactor_IMP m2) [n, t] = item (self_prefactor_IMP m1) [n, t] / 4)"
proof -
  let ?mp1 = "mp(''static_dielectric'' \<mapsto> Num d)"
  let ?mp2 = "mp(''static_dielectric'' \<mapsto> Num (2 * d))"
  from assms(1) obtain b1 sd1 s1 ic1 where
    b1: "AbstractElasticScattering_init IMP_required_properties ?mp1 ad = Inr b1"
    and sd1: "?mp1 ''static_dielectric'' = Some (Num sd1)"
    and s1: "calculate_inverse_screening_length_sq X ad (Num sd1) = Inr s1"
    and l1: "for_loop (IMP_loop_body X ad (self_properties b1) s1) (ndindex (shape s1))
           (np_zeros (shape (fermi_levels ad))) = Inr ic1"
    and m1: "self_prefactor_IMP m1 = np_map (\<lambda>x. x * (4 * pi)\<^sup>2 * Second X / sd1\<^sup>2) ic1"
    by (elim IMP_init_InrE) simp
  from assms(2) obtain b2 sd2 s2 ic2 where
    b2: "AbstractElasticScattering_init IMP_required_properties ?mp2 ad = Inr b2"
    and sd2: "?mp2 ''static_dielectric'' = Some (Num sd2)"
    and s2: "calculate_inverse_screening_length_sq X ad (Num sd2) = Inr s2"
    and l2: "for_loop (IMP_loop_body X ad (self_properties b2) s2) (ndindex (shape s2))
           (np_zeros (shape (fermi_levels ad))) = Inr ic2"
    and m2: "self_prefactor_IMP m2 = np_map (\<lambda>x. x * (4 * pi)\<^sup>2 * Second X / sd2\<^sup>2) ic2"
    by (elim IMP_init_InrE) simp
  from sd1 sd2 have sd: "sd1 = d" "sd2 = 2 * d" by simp_all
  have sh: "shape s1 = shape s2"
    using screening_shape [OF s1] screening_shape [OF s2] by simp
  have props: "self_properties b1 ''donor_charge'' = self_properties b2 ''donor_charge''"
    "self_properties b1 ''acceptor_charge'' = self_properties b2 ''acceptor_charge''"
    by (simp_all add: base_init_fields(1) [OF b1] base_init_fields(1) [OF b2]
        restrict_map_def)
  have "for_loop (IMP_loop_body X ad (self_properties b1) s1) (ndindex (shape s1))
           (np_zeros (shape (fermi_levels ad))) =
        for_loop (IMP_loop_body X ad (self_properties b2) s2) (ndindex (shape s1))
           (np_zeros (shape (fermi_levels ad)))"
    by (rule for_loop_cong) (rule IMP_loop_body_cong [OF props sh])
  with l1 l2 sh have ic: "ic1 = ic2" by simp
  have "x * (4 * pi)\<^sup>2 * Second X / (2 * d)\<^sup>2 = x * (4 * pi)\<^sup>2 * Second X / d\<^sup>2 / 4" for x
    using assms(3) by (simp add: power2_eq_square)
  with m1 m2 sd ic show ?thesis
    by (simp add: np_map_def)
qed

theorem IMP_prefactor_dielectric_doubling_witness:
  "IMP_init example_externals (example_properties(''static_dielectric'' \<mapsto> Num 3))
     example_data = Inr (example_IMP_with 3) \<and>
   IMP_init example_externals (example_properties(''static_dielectric'' \<mapsto> Num (2 * 3)))
     example_data = Inr (example_IMP_with (2 * 3)) \<and>
   (3 :: real) \<noteq> 0 \<and>
   item (self_prefactor_IMP (example_IMP_with 3)) [0, 1] = 224 * pi\<^sup>2 / 3 \<and>
   item (self_prefactor_IMP (example_IMP_with (2 * 3))) [0, 1] =
     item (self_prefactor_IMP (example_IMP_with 3)) [0, 1] / 4"
proof -
  have v: "item (self_prefactor_IMP (example_IMP_with 3)) [0, 1] = 224 * pi\<^sup>2 / 3"
    by (simp add: example_IMP_with_fields np_map_def example_defs)
  have n: "(3 :: real) \<noteq> 0" by simp
  from IMP_prefactor_dielectric_doubling
    [OF example_IMP_with_init [of 3] example_IMP_with_init [of "2 * 3"] n]
  have "item (self_prefactor_IMP (example_IMP_with (2 * 3))) [0, 1] =
     item (self_prefactor_IMP (example_IMP_with 3)) [0, 1] / 4"
    by blast
  with v n example_IMP_with_init [of 3] example_IMP_with_init [of "2 * 3"]
  show ?thesis by blast
qed

subsection \<open>The shape of the form factor\<close>

lemma PIE_factor_1d:
  "shape q = [c] \<Longrightarrow>
   shape (PIE_factor m q) = [length (self_doping m), length (self_temperatures m), c]"
  by (simp add: PIE_factor_def np_tile_def np_defs Let_def)

text \<open>
  C2, as the code has it. The ADP \<open>factor\<close> has the shape (ndoping, ntemperature)
  followed by the shape of its argument for an argument of any rank; the IMP and PIE
  \<open>factor\<close> have it for a one-dimensional argument.
\<close>

theorem factor_shape:
  "(ADP_init X mp ad = Inr (adp, w) \<and>
      shape (fermi_levels ad) = [length (doping ad), length (temperatures ad)] \<longrightarrow>
      shape (ADP_factor adp q) = [length (doping ad), length (temperatures ad)] @ shape q) \<and>
   (IMP_init X mp ad = Inr imp \<and>
      shape (fermi_levels ad) = [length (doping ad), length (temperatures ad)] \<and>
      shape q = [nk] \<longrightarrow>
      (\<exists>F. IMP_factor imp q = Inr F \<and>
         shape F = [length (doping ad), length (temperatures ad)] @ shape q)) \<and>
   (PIE_init X mp ad = Inr pie \<and> shape q = [nk] \<longrightarrow>
      shape (PIE_factor pie q) = [length (doping ad), length (temperatures ad)] @ shape q)"
proof (intro conjI impI)
  assume "ADP_init X mp ad = Inr (adp, w) \<and>
      shape (fermi_levels ad) = [length (doping ad), length (temperatures ad)]"
  then show "shape (ADP_factor adp q) =
      [length (doping ad), length (temperatures ad)] @ shape q"
    using ADP_init_fields(6) [of X mp ad adp w]
    by (simp add: ADP_factor_def np_defs)
next
  assume a: "IMP_init X mp ad = Inr imp \<and>
      shape (fermi_levels ad) = [length (doping ad), length (temperatures ad)] \<and>
      shape q = [nk]"
  then have "shape (self_inverse_screening_length_sq imp) =
      [length (doping ad), length (temperatures ad)]"
    using IMP_init_screening_shape [of X mp ad imp] by simp
  from IMP_factor_1d [OF this, of q nk] a
  show "\<exists>F. IMP_factor imp q = Inr F \<and>
         shape F = [length (doping ad), length (temperatures ad)] @ shape q"
    by auto
next
  assume "PIE_init X mp ad = Inr pie \<and> shape q = [nk]"
  then show "shape (PIE_factor pie q) =
      [length (doping ad), length (temperatures ad)] @ shape q"
    using PIE_init_fields [of X mp ad pie] by (simp add: PIE_factor_1d)
qed

theorem factor_shape_witness:
  "ADP_init example_externals example_properties example_data = Inr (example_ADP, []) \<and>
   IMP_init example_externals example_properties example_data = Inr example_IMP \<and>
   PIE_init example_externals example_properties example_data = Inr example_PIE \<and>
   shape (fermi_levels example_data) =
     [length (doping example_data), length (temperatures example_data)] \<and>
   shape (np_array1 [0, 1, 3]) = [3] \<and>
   shape (ADP_factor example_ADP (np_full [2, 3] 1)) = [1, 2, 2, 3] \<and>
   shape (projr (IMP_factor example_IMP (np_array1 [0, 1, 3]))) = [1, 2, 3] \<and>
   shape (PIE_factor example_PIE (np_array1 [0, 1, 3])) = [1, 2, 3]"
proof -
  have h: "shape (fermi_levels example_data) =
     [length (doping example_data), length (temperatures example_data)]"
    "shape (np_array1 [0, 1, 3]) = [3]"
    by (simp_all add: example_defs np_defs)
  note i = example_ADP_init example_IMP_init example_PIE_init
  have sh: "[length (doping example_data), length (temperatures example_data)] = [1, 2]"
    by (simp add: example_defs)
  note t = factor_shape [of example_externals example_properties example_data example_ADP "[]"
      _ example_IMP _ example_PIE]
  from t [of "np_full [2, 3] 1"] i h
  have "shape (ADP_factor example_ADP (np_full [2, 3] 1)) =
      [length (doping example_data), length (temperatures example_data)] @
        shape (np_full [2, 3] 1)"
    by blast
  then have a: "shape (ADP_factor example_ADP (np_full [2, 3] 1)) = [1, 2, 2, 3]"
    by (simp add: sh np_defs)
  from t [of "np_array1 [0, 1, 3]" 3] i h
  have "\<exists>F. IMP_factor example_IMP (np_array1 [0, 1, 3]) = Inr F \<and>
      shape F = [length (doping example_data), length (temperatures example_data)] @
        shape (np_array1 [0, 1, 3])"
    by blast
  then have b: "shape (projr (IMP_factor example_IMP (np_array1 [0, 1, 3]))) = [1, 2, 3]"
    by (auto simp: sh h(2))
  from t [of "np_array1 [0, 1, 3]" 3] i h
  have "shape (PIE_factor example_PIE (np_array1 [0, 1, 3])) =
      [length (doping example_data), length (temperatures example_data)] @
        shape (np_array1 [0, 1, 3])"
    by blast
  then have c: "shape (PIE_factor example_PIE (np_array1 [0, 1, 3])) = [1, 2, 3]"
    by (simp add: sh h(2))
  from a b c i h show ?thesis by blast
qed

text \<open>
  For an argument of shape (2, 3), \<open>np.tile\<close> with repetitions (1, 2, 1) gives the PIE
  \<open>factor\<close> the shape (1, 4, 3), not (1, 2, 2, 3).
\<close>

theorem factor_shape_counterexample:
  "PIE_init example_externals example_properties example_data = Inr example_PIE \<and>
   shape (np_full [2, 3] 1) = [2, 3] \<and>
   shape (PIE_factor example_PIE (np_full [2, 3] 1)) = [1, 4, 3] \<and>
   shape (PIE_factor example_PIE (np_full [2, 3] 1)) \<noteq>
     [length (doping example_data), length (temperatures example_data)] @
       shape (np_full [2, 3] 1)"
proof -
  note f = PIE_init_fields [OF example_PIE_init]
  have "shape (PIE_factor example_PIE (np_full [2, 3] 1)) = [1, 4, 3]"
    by (simp add: PIE_factor_def np_tile_def np_defs Let_def f example_defs)
  then show ?thesis
    using example_PIE_init by (simp add: np_defs example_defs)
qed

end
